theory Spec2Isabelle
  imports Complex_Main "HOL-Library.Sublist"
begin

section \<open>Data model\<close>

text \<open>
  The featurizer of \<^verbatim>\<open>misc/featurizer.py\<close> maps every rule (edge) of a parse forest to a
  feature map. Python floats are idealised as reals; Python's unbounded integers are
  \<^typ>\<open>int\<close>; every exception is a value of type \<open>error\<close>.
\<close>

datatype error = AssertionError | AttributeError | IndexError | KeyError | TypeError | ValueError

text \<open>
  Modelled from the spec: \<^verbatim>\<open>lib.libitg\<close> (Symbol, Terminal, Nonterminal, Span, Rule, FSA)
  is not among the sources. A symbol is a Terminal or a Nonterminal carrying a name, or a Span:
  a symbol paired with a (start, end) pair of positions. Equality of symbols is structural.
\<close>

datatype symbol = Terminal string | Nonterminal string | Span symbol int int

text \<open>The values that indexing or unpacking the result of \<^verbatim>\<open>obj()\<close> can produce.\<close>

datatype pyval = PSym symbol | PStr string | PInt int

text \<open>
  Modelled from the spec: \<^verbatim>\<open>is_terminal()\<close> of the missing \<^verbatim>\<open>lib.libitg\<close>. The
  dispatch asks it of an rhs item that the terminal featurizer then unpacks as a span, so a
  Span is terminal when the symbol it wraps is.
\<close>

fun is_terminal :: "symbol \<Rightarrow> bool" where
  "is_terminal (Terminal w) = True"
| "is_terminal (Nonterminal n) = False"
| "is_terminal (Span s a b) = is_terminal s"

text \<open>
  Modelled from the spec: \<^verbatim>\<open>obj()\<close> of the missing \<^verbatim>\<open>lib.libitg\<close>, as the sequence of
  its items. The source unpacks the \<^verbatim>\<open>obj()\<close> of a Span into (symbol, start, end); the
  \<^verbatim>\<open>obj()\<close> of a bare Terminal or Nonterminal is its name, a Python str, whose items are
  its one-character substrings.
\<close>

fun obj :: "symbol \<Rightarrow> pyval list" where
  "obj (Span s a b) = [PSym s, PInt a, PInt b]"
| "obj (Terminal w) = map (\<lambda>c. PStr [c]) w"
| "obj (Nonterminal n) = map (\<lambda>c. PStr [c]) n"

text \<open>
  \<^verbatim>\<open>isinstance(s, Nonterminal)\<close>: a bare Nonterminal is an instance; Span and Terminal are
  other classes of symbols.
\<close>

fun isinstance_Nonterminal :: "symbol \<Rightarrow> bool" where
  "isinstance_Nonterminal (Nonterminal n) = True"
| "isinstance_Nonterminal (Terminal w) = False"
| "isinstance_Nonterminal (Span s a b) = False"

text \<open>
  Modelled from the spec: a rule has a left-hand-side item and an ordered right-hand-side
  sequence of items.
\<close>

record rule =
  lhs :: symbol
  rhs :: "symbol list"

text \<open>\<^verbatim>\<open>a, b, c = xs\<close> raises ValueError unless \<open>xs\<close> has exactly three items.\<close>

fun unpack3 :: "'a list \<Rightarrow> error + ('a \<times> 'a \<times> 'a)" where
  "unpack3 [a, b, c] = Inr (a, b, c)"
| "unpack3 xs = Inl ValueError"

text \<open>\<^verbatim>\<open>xs[i]\<close> for an index \<open>i \<ge> 0\<close>: IndexError out of range.\<close>

definition index :: "'a list \<Rightarrow> nat \<Rightarrow> error + 'a" where
  "index xs i = (if i < length xs then Inr (xs ! i) else Inl IndexError)"

text \<open>\<^verbatim>\<open>xs[-1]\<close>: IndexError on the empty list.\<close>

definition last_item :: "'a list \<Rightarrow> error + 'a" where
  "last_item xs = (if xs = [] then Inl IndexError else Inr (last xs))"

text \<open>
  Modelled from the spec: the embedding tables are constructor arguments whose class is not
  among the sources. Each exposes a dimension (a count, hence a natural number), and per word
  a dense vector and an integer cluster id; both lookups are total. Nothing ties the length
  of a vector to the dimension of its table: indexing a vector out of range raises.
\<close>

record embeddings =
  dim :: nat
  get :: "string \<Rightarrow> real list"
  get_cluster_id :: "string \<Rightarrow> int"

text \<open>
  The state of a \<^verbatim>\<open>Featurizer\<close>, as \<^verbatim>\<open>__init__\<close> stores it. The alignment table is a
  constructor argument; as in the spec it is total on pairs of words (absent pairs have
  probability 0).
\<close>

record featurizer =
  ibm1_probs :: "string \<times> string \<Rightarrow> real"
  embeddings_ch :: embeddings
  embeddings_en :: embeddings
  word_class_features :: bool
  dense_word_emb_features :: bool
  sparse_word_features :: bool

text \<open>
  The helpers the source imports from \<^verbatim>\<open>misc.spans\<close> and \<^verbatim>\<open>lib.libitg\<close>, which are not
  among the sources, are parameters: the span queries over the source lattice (they may
  raise), the number of states of a lattice and its construction from a sentence.
\<close>

record 'fsa spans =
  get_phrase :: "'fsa \<Rightarrow> pyval \<Rightarrow> pyval \<Rightarrow> error + string list"
  get_source_word :: "'fsa \<Rightarrow> pyval \<Rightarrow> pyval \<Rightarrow> error + string"
  get_target_word :: "pyval \<Rightarrow> error + string"
  nb_states :: "'fsa \<Rightarrow> int"
  make_fsa :: "string \<Rightarrow> 'fsa"

subsection \<open>Feature maps\<close>

text \<open>
  A feature map is a \<^verbatim>\<open>defaultdict(float)\<close>: reading a missing key creates it with
  value 0.0.
\<close>

type_synonym fmap = "string \<rightharpoonup> real"

text \<open>\<^verbatim>\<open>fmap[k]\<close> as a statement.\<close>

definition touch :: "fmap \<Rightarrow> string \<Rightarrow> fmap" where
  "touch m k = (case m k of None \<Rightarrow> m(k \<mapsto> 0) | Some v \<Rightarrow> m)"

text \<open>\<^verbatim>\<open>fmap[k] += v\<close>.\<close>

definition incr :: "fmap \<Rightarrow> string \<Rightarrow> real \<Rightarrow> fmap" where
  "incr m k v = m(k \<mapsto> (case m k of None \<Rightarrow> 0 | Some x \<Rightarrow> x) + v)"

subsection \<open>String formatting\<close>

definition digit_char :: "nat \<Rightarrow> char" where
  "digit_char d = ''0123456789'' ! d"

fun str_nat :: "nat \<Rightarrow> string" where
  "str_nat n = (if n < 10 then [digit_char n] else str_nat (n div 10) @ [digit_char (n mod 10)])"

declare str_nat.simps [simp del]

text \<open>\<^verbatim>\<open>"%d" % n\<close> for an integer \<open>n\<close>.\<close>

definition fmt_d :: "int \<Rightarrow> string" where
  "fmt_d n = (if n < 0 then CHR ''-'' # str_nat (nat (- n)) else str_nat (nat n))"

definition eps :: real where
  "eps = 1 / 10 ^ 10"


subsection \<open>Sequencing of computations that may raise\<close>

definition and_then :: "error + 'a \<Rightarrow> ('a \<Rightarrow> error + 'b) \<Rightarrow> error + 'b" where
  "and_then m f = (case m of Inl e \<Rightarrow> Inl e | Inr x \<Rightarrow> f x)"

text \<open>\<^verbatim>\<open>a - b\<close>: only integers reach it without a TypeError.\<close>

fun py_sub :: "pyval \<Rightarrow> pyval \<Rightarrow> error + int" where
  "py_sub (PInt a) (PInt b) = Inr (a - b)"
| "py_sub a b = Inl TypeError"

section \<open>The featurizers\<close>

subsection \<open>Loops shared by the featurizers\<close>

text \<open>
  \<^verbatim>\<open>acc += v\<close> on a one-dimensional numpy array \<open>acc\<close>: element-wise when the lengths
  agree, broadcast when \<open>v\<close> has one element, ValueError otherwise.
\<close>

definition np_iadd :: "real list \<Rightarrow> real list \<Rightarrow> error + real list" where
  "np_iadd acc v =
     (if length v = length acc then Inr (map2 (+) acc v)
      else if length v = 1 then Inr (map (\<lambda>a. a + hd v) acc)
      else Inl ValueError)"

text \<open>\<^verbatim>\<open>for word in phrase: repr += embeddings.get(word)\<close>\<close>

fun sum_embeddings :: "embeddings \<Rightarrow> string list \<Rightarrow> real list \<Rightarrow> error + real list" where
  "sum_embeddings E [] repr = Inr repr"
| "sum_embeddings E (word # phrase) repr =
     (case np_iadd repr (get E word) of
        Inl e \<Rightarrow> Inl e
      | Inr repr' \<Rightarrow> sum_embeddings E phrase repr')"

text \<open>\<^verbatim>\<open>for dim, val in enumerate(repr): fmap[pre % dim] = val\<close>\<close>

definition set_dims :: "string \<Rightarrow> real list \<Rightarrow> fmap \<Rightarrow> fmap" where
  "set_dims pre repr fmap =
     fold (\<lambda>(d, val) m. m(pre @ fmt_d (int d) \<mapsto> val)) (enumerate 0 repr) fmap"

text \<open>
  \<^verbatim>\<open>for i in range(len(xs)): for j in range(i+1, len(xs)): fmap[pre % (xs[i], xs[j])] += 1.0\<close>,
  where \<open>fmt\<close> formats one item (\<^verbatim>\<open>%s\<close> or \<^verbatim>\<open>%d\<close>).
\<close>

definition skip_grams :: "string \<Rightarrow> ('a \<Rightarrow> string) \<Rightarrow> 'a list \<Rightarrow> fmap \<Rightarrow> fmap" where
  "skip_grams pre fmt xs fmap =
     fold (\<lambda>i m. fold (\<lambda>j m. incr m (pre @ fmt (xs ! i) @ ''/'' @ fmt (xs ! j)) 1)
                       [i + 1..<length xs] m)
          [0..<length xs] fmap"

text \<open>
  \<^verbatim>\<open>for i in range(n): fmap[pre % i] = val(i)\<close>, where computing \<open>val i\<close> indexes
  embedding vectors and so may raise IndexError.
\<close>

fun assign_dims :: "string \<Rightarrow> (nat \<Rightarrow> error + real) \<Rightarrow> nat list \<Rightarrow> fmap \<Rightarrow> error + fmap" where
  "assign_dims pre val [] fmap = Inr fmap"
| "assign_dims pre val (i # is) fmap =
     (case val i of
        Inl e \<Rightarrow> Inl e
      | Inr v \<Rightarrow> assign_dims pre val is (fmap(pre @ fmt_d (int i) \<mapsto> v)))"

subsection \<open>Upgrade and start rules\<close>

definition featurize_upgrade_rule ::
  "'fsa spans \<Rightarrow> featurizer \<Rightarrow> rule \<Rightarrow> 'fsa \<Rightarrow> fmap \<Rightarrow> error + fmap" where
  "featurize_upgrade_rule sp F r src_fsa fmap =
     and_then (unpack3 (obj (lhs r))) (\<lambda>(lhs_symbol, lhs_start, lhs_end).
     and_then (index (rhs r) 0) (\<lambda>rhs0.
     and_then (unpack3 (obj rhs0)) (\<lambda>(rhs_symbol, rhs_start, rhs_end).
       if lhs_symbol = PSym (Nonterminal ''X'') then
         (if rhs_symbol = PSym (Nonterminal ''T'') then Inr (incr fmap ''type:upgrade_t'' 1)
          else if rhs_symbol = PSym (Nonterminal ''D'') then Inr (incr fmap ''type:upgrade_d'' 1)
          else if rhs_symbol = PSym (Nonterminal ''T'') then Inr (incr fmap ''type:upgrade_t'' 1)
          else Inr fmap)
       else Inr fmap)))"

definition featurize_start_rule ::
  "'fsa spans \<Rightarrow> featurizer \<Rightarrow> rule \<Rightarrow> 'fsa \<Rightarrow> fmap \<Rightarrow> error + fmap" where
  "featurize_start_rule sp F r src_fsa fmap = Inr (incr fmap ''top'' 1)"

subsection \<open>Binary rules\<close>

text \<open>The branch of \<^verbatim>\<open>_featurize_binary_rule\<close> for the lhs label "X" (lines 81 to 125).\<close>

definition binary_x ::
  "'fsa spans \<Rightarrow> featurizer \<Rightarrow> 'fsa \<Rightarrow> pyval \<Rightarrow> pyval \<Rightarrow> pyval \<Rightarrow> pyval \<Rightarrow> pyval \<Rightarrow> pyval
     \<Rightarrow> fmap \<Rightarrow> error + fmap" where
  "binary_x sp F src_fsa lhs_start lhs_end rhs_start_1 rhs_end_1 rhs_start_2 rhs_end_2 fmap0 =
     (let fmap = (if lhs_start = rhs_start_2 then incr fmap0 ''binary:inverted'' 1
                  else incr fmap0 ''binary:monotone'' 1)
      in
      and_then (get_phrase sp src_fsa lhs_start lhs_end) (\<lambda>src_inside_phrase.
      if \<not> length src_inside_phrase > 0 then Inl AssertionError
      else
      and_then (sum_embeddings (embeddings_ch F) src_inside_phrase
                  (replicate (dim (embeddings_ch F)) 0)) (\<lambda>inside_repr.
      let fmap = set_dims ''inside-phrase-'' inside_repr fmap in
      and_then (get_phrase sp src_fsa (PInt 0) lhs_start) (\<lambda>before.
      and_then (get_phrase sp src_fsa lhs_end (PInt (nb_states sp src_fsa))) (\<lambda>after.
      let src_outside_phrase = before @ after in
      and_then
        (if length src_outside_phrase > 0 then
           and_then (sum_embeddings (embeddings_ch F) src_outside_phrase
                       (replicate (dim (embeddings_ch F)) 0)) (\<lambda>outside_repr.
           Inr (set_dims ''outside-phrase-'' outside_repr fmap))
         else Inr fmap) (\<lambda>fmap.
      and_then (get_phrase sp src_fsa rhs_start_1 rhs_end_1) (\<lambda>rhs_phrase_1.
      and_then (get_phrase sp src_fsa rhs_start_2 rhs_end_2) (\<lambda>rhs_phrase_2.
      let rhs_phrase = rhs_phrase_1 @ rhs_phrase_2;
          fmap = skip_grams ''skip-gram:'' (\<lambda>w. w) rhs_phrase fmap;
          fmap = (if word_class_features F then
                    skip_grams ''skip-gram:word-classes:'' fmt_d
                      (map (get_cluster_id (embeddings_ch F)) rhs_phrase) fmap
                  else fmap)
      in
      and_then (py_sub lhs_end lhs_start) (\<lambda>source_span_len.
      Inr (incr fmap (''source-span-len-'' @ fmt_d source_span_len) 1))))))))))"

definition featurize_binary_rule ::
  "'fsa spans \<Rightarrow> featurizer \<Rightarrow> rule \<Rightarrow> 'fsa \<Rightarrow> fmap \<Rightarrow> error + fmap" where
  "featurize_binary_rule sp F r src_fsa fmap0 =
     (let fmap = incr fmap0 ''type:binary'' 1 in
      and_then (unpack3 (obj (lhs r))) (\<lambda>(lhs_symbol, lhs_start, lhs_end).
      and_then (index (rhs r) 0) (\<lambda>rhs0.
      and_then (unpack3 (obj rhs0)) (\<lambda>(rhs_symbol_1, rhs_start_1, rhs_end_1).
      and_then (index (rhs r) 1) (\<lambda>rhs1.
      and_then (unpack3 (obj rhs1)) (\<lambda>(rhs_symbol_2, rhs_start_2, rhs_end_2).
        if lhs_symbol = PSym (Nonterminal ''D'') then
          Inr (incr fmap ''binary:recursive_deletion'' 1)
        else if lhs_symbol = PSym (Nonterminal ''X'') then
          binary_x sp F src_fsa lhs_start lhs_end rhs_start_1 rhs_end_1 rhs_start_2 rhs_end_2 fmap
        else Inr fmap))))))"


subsection \<open>Terminal rules\<close>

text \<open>The deletion branch of \<^verbatim>\<open>_featurize_terminal_rule\<close> (lines 137 to 157).\<close>

definition terminal_deletion ::
  "'fsa spans \<Rightarrow> featurizer \<Rightarrow> 'fsa \<Rightarrow> pyval \<Rightarrow> pyval \<Rightarrow> fmap \<Rightarrow> error + fmap" where
  "terminal_deletion sp F src_fsa lhs_start lhs_end fmap0 =
     (let fmap = incr fmap0 ''type:deletion'' 1 in
      and_then (get_source_word sp src_fsa lhs_start lhs_end) (\<lambda>src_word.
      let fmap = incr fmap ''ibm1:del:logprob'' (ln (ibm1_probs F (src_word, ''-EPS-'') + eps));
          fmap = (if sparse_word_features F then incr fmap (''del:'' @ src_word) 1 else fmap);
          fmap = (if word_class_features F \<and> sparse_word_features F then
                    (let src_class = get_cluster_id (embeddings_ch F) src_word
                     in incr fmap (''del:class:'' @ fmt_d src_class) 1)
                  else fmap)
      in
      if dense_word_emb_features F then
        (let ch_emb = get (embeddings_ch F) src_word
         in assign_dims ''del:emb:dim-'' (index ch_emb) [0..<dim (embeddings_ch F)] fmap)
      else Inr fmap))"

text \<open>The insertion branch (lines 160 to 181).\<close>

definition terminal_insertion ::
  "'fsa spans \<Rightarrow> featurizer \<Rightarrow> pyval \<Rightarrow> fmap \<Rightarrow> error + fmap" where
  "terminal_insertion sp F rhs_symbol fmap0 =
     (let fmap = incr fmap0 ''type:insertion'' 1;
          fmap = incr fmap ''target-len'' 1
      in
      and_then (get_target_word sp rhs_symbol) (\<lambda>tgt_word.
      let fmap = incr fmap ''ibm1:ins:logprob'' (ln (ibm1_probs F (''-EPS-'', tgt_word) + eps));
          fmap = (if sparse_word_features F then incr fmap (''ins:'' @ tgt_word) 1 else fmap);
          fmap = (if word_class_features F \<and> sparse_word_features F then
                    (let tgt_class = get_cluster_id (embeddings_en F) tgt_word
                     in touch fmap (''ins:class:'' @ fmt_d tgt_class))
                  else fmap)
      in
      if dense_word_emb_features F then
        (let en_emb = get (embeddings_en F) tgt_word
         in assign_dims ''ins:emb:dim-'' (index en_emb) [0..<dim (embeddings_ch F)] fmap)
      else Inr fmap))"

text \<open>The translation branch (lines 184 to 211).\<close>

definition terminal_translation ::
  "'fsa spans \<Rightarrow> featurizer \<Rightarrow> 'fsa \<Rightarrow> pyval \<Rightarrow> pyval \<Rightarrow> pyval \<Rightarrow> fmap \<Rightarrow> error + fmap" where
  "terminal_translation sp F src_fsa lhs_start lhs_end rhs_symbol fmap0 =
     (let fmap = incr fmap0 ''type:translation'' 1;
          fmap = incr fmap ''target-len'' 1
      in
      and_then (get_source_word sp src_fsa lhs_start lhs_end) (\<lambda>src_word.
      and_then (get_target_word sp rhs_symbol) (\<lambda>tgt_word.
      let fmap = incr fmap ''ibm1:x2y:logprob'' (ln (ibm1_probs F (src_word, tgt_word) + eps));
          fmap = incr fmap ''ibm1:y2x:logprob'' (ln (ibm1_probs F (tgt_word, src_word) + eps));
          fmap = incr fmap ''ibm1:geometric:log''
                   (ln (sqrt (ibm1_probs F (src_word, tgt_word) * ibm1_probs F (tgt_word, src_word)
                              + eps) + eps));
          fmap = (if sparse_word_features F then
                    incr fmap (''trans:'' @ src_word @ ''/'' @ tgt_word) 1
                  else fmap);
          fmap = (if word_class_features F \<and> sparse_word_features F then
                    (let src_class = get_cluster_id (embeddings_ch F) src_word;
                         tgt_class = get_cluster_id (embeddings_en F) tgt_word
                     in incr fmap (''trans:class:'' @ fmt_d src_class @ ''/'' @ fmt_d tgt_class) 1)
                  else fmap)
      in
      if dense_word_emb_features F then
        (let ch_emb = get (embeddings_ch F) src_word;
             en_emb = get (embeddings_en F) tgt_word
         in assign_dims ''trans:emb:dim-''
              (\<lambda>i. and_then (index ch_emb i) (\<lambda>a. and_then (index en_emb i) (\<lambda>b. Inr (a - b))))
              [0..<dim (embeddings_ch F)] fmap)
      else Inr fmap)))"

definition featurize_terminal_rule ::
  "'fsa spans \<Rightarrow> featurizer \<Rightarrow> rule \<Rightarrow> 'fsa \<Rightarrow> fmap \<Rightarrow> error + fmap" where
  "featurize_terminal_rule sp F r src_fsa fmap0 =
     (let fmap = incr fmap0 ''type:terminal'' 1 in
      and_then (unpack3 (obj (lhs r))) (\<lambda>(lhs_symbol, lhs_start, lhs_end).
      and_then (index (rhs r) 0) (\<lambda>rhs0.
      and_then (unpack3 (obj rhs0)) (\<lambda>(rhs_symbol, rhs_start, rhs_end).
        if lhs_symbol = PSym (Nonterminal ''D'') then
          terminal_deletion sp F src_fsa lhs_start lhs_end fmap
        else if lhs_symbol = PSym (Nonterminal ''I'') then
          terminal_insertion sp F rhs_symbol fmap
        else if lhs_symbol = PSym (Nonterminal ''T'') then
          terminal_translation sp F src_fsa lhs_start lhs_end rhs_symbol fmap
        else Inr fmap))))"

subsection \<open>Dispatch\<close>

definition featurize_edge ::
  "'fsa spans \<Rightarrow> featurizer \<Rightarrow> rule \<Rightarrow> 'fsa \<Rightarrow> error + fmap" where
  "featurize_edge sp F edge src_fsa =
     (let fmap = Map.empty in
      if length (rhs edge) = 2 then featurize_binary_rule sp F edge src_fsa fmap
      else
        and_then (index (rhs edge) 0) (\<lambda>rhs0.
        if is_terminal rhs0 then featurize_terminal_rule sp F edge src_fsa fmap
        else
          and_then (index (obj (lhs edge)) 0) (\<lambda>lhs0.
          if lhs0 \<noteq> PSym (Nonterminal ''X'') then
            (if \<not> isinstance_Nonterminal (lhs edge) then
               featurize_start_rule sp F edge src_fsa fmap
             else Inr fmap)
          else featurize_upgrade_rule sp F edge src_fsa fmap)))"

subsection \<open>Forests and batches\<close>

text \<open>
  Modelled from the spec: \<^verbatim>\<open>misc.features.Features\<close> is not among the sources. The
  container is a mapping from a rule to its feature map, and \<^verbatim>\<open>add\<close> records the map of
  a rule.
\<close>

type_synonym features = "rule \<rightharpoonup> fmap"

definition features_add :: "features \<Rightarrow> rule \<Rightarrow> fmap \<Rightarrow> features" where
  "features_add features edge fmap = features(edge \<mapsto> fmap)"

text \<open>\<^verbatim>\<open>for edge in Dx: features.add(edge, self._featurize_edge(edge, src_fsa))\<close>\<close>

fun featurize_edges ::
  "'fsa spans \<Rightarrow> featurizer \<Rightarrow> 'fsa \<Rightarrow> rule list \<Rightarrow> features \<Rightarrow> error + features" where
  "featurize_edges sp F src_fsa [] features = Inr features"
| "featurize_edges sp F src_fsa (edge # Dx) features =
     (case featurize_edge sp F edge src_fsa of
        Inl e \<Rightarrow> Inl e
      | Inr fmap \<Rightarrow> featurize_edges sp F src_fsa Dx (features_add features edge fmap))"

text \<open>
  A best derivation is \<^verbatim>\<open>None\<close> or an object with a list \<^verbatim>\<open>_rules\<close>.
  \<^verbatim>\<open>Dxy._rules[-1]\<close> raises AttributeError on \<^verbatim>\<open>None\<close> and IndexError on an empty list.
\<close>

definition last_rule :: "rule list option \<Rightarrow> error + rule" where
  "last_rule Dxy = (case Dxy of None \<Rightarrow> Inl AttributeError | Some rules \<Rightarrow> last_item rules)"

text \<open>
  \<^verbatim>\<open>features.add(Dxy._rules[-1], self._featurize_edge(Dxy._rules[-1], src_fsa))\<close>
\<close>

definition add_last_rule ::
  "'fsa spans \<Rightarrow> featurizer \<Rightarrow> 'fsa \<Rightarrow> rule list option \<Rightarrow> features \<Rightarrow> error + features" where
  "add_last_rule sp F src_fsa Dxy features =
     and_then (last_rule Dxy) (\<lambda>edge.
     and_then (featurize_edge sp F edge src_fsa) (\<lambda>fmap.
     Inr (features_add features edge fmap)))"

definition featurize_parse_trees ::
  "'fsa spans \<Rightarrow> featurizer \<Rightarrow> rule list \<Rightarrow> rule list option \<Rightarrow> string \<Rightarrow> error + features" where
  "featurize_parse_trees sp F Dx Dxy x =
     (let src_fsa = make_fsa sp x;
          features = Map.empty
      in
      and_then (featurize_edges sp F src_fsa Dx features) (\<lambda>features.
      if Dxy \<noteq> None then add_last_rule sp F src_fsa Dxy features
      else Inr features))"

text \<open>The loop of \<^verbatim>\<open>featurize_parse_trees_batch\<close> over the tuples of the batch.\<close>

fun batch_loop ::
  "'fsa spans \<Rightarrow> featurizer \<Rightarrow> (rule list \<times> rule list option \<times> string \<times> string) list
     \<Rightarrow> features \<Rightarrow> error + features" where
  "batch_loop sp F [] features = Inr features"
| "batch_loop sp F ((Dx, Dxy, source, target) # batch) features =
     (let src_fsa = make_fsa sp source in
      case featurize_edges sp F src_fsa Dx features of
        Inl e \<Rightarrow> Inl e
      | Inr features \<Rightarrow>
          (case add_last_rule sp F src_fsa Dxy features of
             Inl e \<Rightarrow> Inl e
           | Inr features \<Rightarrow> batch_loop sp F batch features))"

definition featurize_parse_trees_batch ::
  "'fsa spans \<Rightarrow> featurizer \<Rightarrow> (rule list \<times> rule list option \<times> string \<times> string) list
     \<Rightarrow> error + features" where
  "featurize_parse_trees_batch sp F batch = (let features = Map.empty in batch_loop sp F batch features)"


section \<open>A concrete lattice, tables and rules\<close>

text \<open>
  An instance of the parameters, used to run the featurizer: the lattice of a sentence is the
  list of its words, with one more state than words.
\<close>

fun split_words :: "string \<Rightarrow> string \<Rightarrow> string list" where
  "split_words [] cur = (if cur = [] then [] else [cur])"
| "split_words (c # cs) cur =
     (if c = CHR '' '' then (if cur = [] then split_words cs [] else cur # split_words cs [])
      else split_words cs (cur @ [c]))"

fun ex_get_phrase :: "string list \<Rightarrow> pyval \<Rightarrow> pyval \<Rightarrow> error + string list" where
  "ex_get_phrase ws (PInt a) (PInt b) = Inr (take (nat (b - a)) (drop (nat a) ws))"
| "ex_get_phrase ws a b = Inl TypeError"

fun ex_get_source_word :: "string list \<Rightarrow> pyval \<Rightarrow> pyval \<Rightarrow> error + string" where
  "ex_get_source_word ws (PInt a) (PInt b) =
     (if 0 \<le> a \<and> nat a < length ws \<and> b = a + 1 then Inr (ws ! nat a) else Inl AssertionError)"
| "ex_get_source_word ws a b = Inl TypeError"

fun ex_get_target_word :: "pyval \<Rightarrow> error + string" where
  "ex_get_target_word (PSym (Terminal w)) = Inr w"
| "ex_get_target_word v = Inl ValueError"

definition ex_spans :: "string list spans" where
  "ex_spans =
     \<lparr>get_phrase = ex_get_phrase, get_source_word = ex_get_source_word,
      get_target_word = ex_get_target_word, nb_states = (\<lambda>ws. int (length ws) + 1),
      make_fsa = (\<lambda>s. split_words s [])\<rparr>"

definition ex_fsa :: "string list" where
  "ex_fsa = [''the'', ''cat'']"

definition ex_embeddings_ch :: embeddings where
  "ex_embeddings_ch = \<lparr>dim = 2, get = (\<lambda>w. [1, 2]), get_cluster_id = (\<lambda>w. 3)\<rparr>"

definition ex_embeddings_en :: embeddings where
  "ex_embeddings_en = \<lparr>dim = 2, get = (\<lambda>w. [1 / 2, 1 / 4]), get_cluster_id = (\<lambda>w. 7)\<rparr>"

definition ex_featurizer :: featurizer where
  "ex_featurizer =
     \<lparr>ibm1_probs = (\<lambda>p. 1 / 2), embeddings_ch = ex_embeddings_ch,
      embeddings_en = ex_embeddings_en, word_class_features = True,
      dense_word_emb_features = True, sparse_word_features = True\<rparr>"

text \<open>The feature stored under a key of a featurization result.\<close>

definition feature :: "error + fmap \<Rightarrow> string \<Rightarrow> error + real option" where
  "feature res k = (case res of Inl e \<Rightarrow> Inl e | Inr m \<Rightarrow> Inr (m k))"

text \<open>The root rule of a forest: a bare start symbol over the span of the whole sentence.\<close>

definition ex_root_rule :: rule where
  "ex_root_rule = \<lparr>lhs = Nonterminal ''S'', rhs = [Span (Nonterminal ''X'') 0 2]\<rparr>"

text \<open>One rule of each kind over the sentence "the cat".\<close>

definition ex_deletion_rule :: rule where
  "ex_deletion_rule =
     \<lparr>lhs = Span (Nonterminal ''D'') 0 1, rhs = [Span (Terminal ''-EPS-'') 0 1]\<rparr>"

definition ex_insertion_rule :: rule where
  "ex_insertion_rule =
     \<lparr>lhs = Span (Nonterminal ''I'') 0 0, rhs = [Span (Terminal ''le'') 0 0]\<rparr>"

definition ex_translation_rule :: rule where
  "ex_translation_rule =
     \<lparr>lhs = Span (Nonterminal ''T'') 0 1, rhs = [Span (Terminal ''le'') 0 1]\<rparr>"

definition ex_binary_rule :: rule where
  "ex_binary_rule =
     \<lparr>lhs = Span (Nonterminal ''X'') 0 2,
      rhs = [Span (Nonterminal ''X'') 1 2, Span (Nonterminal ''X'') 0 1]\<rparr>"

text \<open>A binary rule over an empty span, as a malformed forest could hold.\<close>

definition ex_empty_binary_rule :: rule where
  "ex_empty_binary_rule =
     \<lparr>lhs = Span (Nonterminal ''X'') 1 1,
      rhs = [Span (Nonterminal ''X'') 1 1, Span (Nonterminal ''X'') 1 1]\<rparr>"

text \<open>
  Featurizers whose source-side table has fewer, or more, dimensions than the target-side
  table (which has two).
\<close>

definition ex_featurizer_narrow :: featurizer where
  "ex_featurizer_narrow =
     ex_featurizer\<lparr>embeddings_ch := \<lparr>dim = 1, get = (\<lambda>w. [1]), get_cluster_id = (\<lambda>w. 3)\<rparr>\<rparr>"

definition ex_featurizer_wide :: featurizer where
  "ex_featurizer_wide =
     ex_featurizer\<lparr>embeddings_ch := \<lparr>dim = 3, get = (\<lambda>w. [1, 2, 3]), get_cluster_id = (\<lambda>w. 3)\<rparr>\<rparr>"

text \<open>A batch tuple without its target sentence.\<close>

definition drop_target ::
  "rule list \<times> rule list option \<times> string \<times> string \<Rightarrow> rule list \<times> rule list option \<times> string" where
  "drop_target t = (case t of (Dx, Dxy, source, target) \<Rightarrow> (Dx, Dxy, source))"

text \<open>
  The keys under the prefixes of the lexical features, and the embedding-dimension keys that
  the dense blocks of the terminal featurizer write.
\<close>

definition sparse_prefix :: "string \<Rightarrow> bool" where
  "sparse_prefix k \<longleftrightarrow> prefix ''del:'' k \<or> prefix ''ins:'' k \<or> prefix ''trans:'' k"

definition emb_keys :: "featurizer \<Rightarrow> string list" where
  "emb_keys F =
     (if dense_word_emb_features F then
        concat (map (\<lambda>i. [''del:emb:dim-'' @ fmt_d (int i), ''ins:emb:dim-'' @ fmt_d (int i),
                           ''trans:emb:dim-'' @ fmt_d (int i)])
                    [0..<dim (embeddings_ch F)])
      else [])"

text \<open>
  How the result \<open>off\<close> with the sparse word features disabled relates to the result \<open>on\<close>
  with them enabled: the same exception, or the same map without its keys under the lexical
  prefixes other than the embedding-dimension keys.
\<close>

definition sparse_gate :: "featurizer \<Rightarrow> error + fmap \<Rightarrow> error + fmap \<Rightarrow> bool" where
  "sparse_gate F on off =
     (case on of
        Inl err \<Rightarrow> off = Inl err
      | Inr m_on \<Rightarrow>
          (\<exists>m_off. off = Inr m_off
             \<and> (\<forall>k. m_off k = (if sparse_prefix k \<and> k \<notin> set (emb_keys F) then None
                                else m_on k))))"

section \<open>Basic facts\<close>

lemma and_then_Inl [simp]: "and_then (Inl e) f = Inl e"
  by (simp add: and_then_def)

lemma and_then_Inr [simp]: "and_then (Inr x) f = f x"
  by (simp add: and_then_def)

lemma incr_empty [simp]: "incr Map.empty k v = [k \<mapsto> v]"
  by (simp add: incr_def)

lemma index_Cons_0 [simp]: "index (x # xs) 0 = Inr x"
  by (simp add: index_def)

lemma index_Nil [simp]: "index [] i = Inl IndexError"
  by (simp add: index_def)

lemma str_nat_digit: "n < 10 \<Longrightarrow> str_nat n = [digit_char n]"
  by (subst str_nat.simps) simp

lemma and_then_eq_Inr: "and_then m f = Inr y \<longleftrightarrow> (\<exists>x. m = Inr x \<and> f x = Inr y)"
  by (cases m) simp_all

lemma fmt_d_digit: "0 \<le> n \<Longrightarrow> n < 10 \<Longrightarrow> fmt_d n = [digit_char (nat n)]"
  by (simp add: fmt_d_def str_nat_digit)

subsection \<open>Keys that a loop leaves alone\<close>

text \<open>
  Every key a loop writes starts with the loop's prefix, so a key without that prefix keeps
  its value.
\<close>

lemma not_prefix_append: "\<not> prefix pre k \<Longrightarrow> k \<noteq> pre @ s"
  by auto

lemma incr_frame: "\<not> prefix pre k \<Longrightarrow> incr m (pre @ s) v k = m k"
  by (auto simp: incr_def)

lemma touch_frame: "\<not> prefix pre k \<Longrightarrow> touch m (pre @ s) k = m k"
  by (auto simp: touch_def split: option.splits)

lemma set_dims_frame: "\<not> prefix pre k \<Longrightarrow> set_dims pre repr m k = m k"
proof -
  assume np: "\<not> prefix pre k"
  have "fold (\<lambda>(d, val) m. m(pre @ fmt_d (int d) \<mapsto> val)) xs m k = m k"
    for xs :: "(nat \<times> real) list"
    using np by (induction xs arbitrary: m) (auto simp: not_prefix_append)
  then show ?thesis by (simp add: set_dims_def)
qed

lemma skip_grams_frame: "\<not> prefix pre k \<Longrightarrow> skip_grams pre fmt xs m k = m k"
proof -
  assume np: "\<not> prefix pre k"
  have inner: "fold (\<lambda>j m. incr m (pre @ g j) 1) js m k = m k"
    for g :: "nat \<Rightarrow> string" and js m
    using np by (induction js arbitrary: m) (simp_all add: incr_frame)
  have outer:
    "fold (\<lambda>i m. fold (\<lambda>j m. incr m (pre @ h i j) 1) [i + 1..<length xs] m) is m k = m k"
    for "is" and h :: "nat \<Rightarrow> nat \<Rightarrow> string"
    by (induction "is" arbitrary: m) (simp_all add: inner)
  show ?thesis unfolding skip_grams_def by (rule outer)
qed

lemma assign_dims_frame:
  "assign_dims pre val is m = Inr m' \<Longrightarrow> \<not> prefix pre k \<Longrightarrow> m' k = m k"
  by (induction "is" arbitrary: m) (auto split: sum.splits simp: not_prefix_append)

lemma binary_x_frame:
  assumes "binary_x sp F fsa ls le a1 b1 a2 b2 m0 = Inr m"
    and "\<not> prefix ''inside-phrase-'' k" and "\<not> prefix ''outside-phrase-'' k"
    and "\<not> prefix ''skip-gram:'' k" and "\<not> prefix ''source-span-len-'' k"
  shows "m k = (if ls = a2 then incr m0 ''binary:inverted'' 1
                else incr m0 ''binary:monotone'' 1) k"
proof -
  have sg: "\<not> prefix ''skip-gram:word-classes:'' k"
    using assms(4) by (auto simp: prefix_def)
  show ?thesis
    using assms sg
    by (auto simp add: binary_x_def Let_def and_then_eq_Inr set_dims_frame skip_grams_frame
          incr_frame simp del: append.simps split: if_splits)
qed

section \<open>Start rules\<close>

text \<open>
  C3 (as stated, refuted): a unary rule whose lhs is the bare start symbol and whose rhs is a
  non-terminal span gets no \<open>top\<close> feature: the dispatch calls the start featurizer only when
  the lhs is not an instance of Nonterminal.
\<close>

theorem start_rule_bare_lhs_counterexample:
  "feature (featurize_edge ex_spans ex_featurizer ex_root_rule ex_fsa) ''top'' = Inr None"
  by (simp add: feature_def featurize_edge_def ex_root_rule_def)

text \<open>
  C3 (amended): for every unary rule whose rhs item is not terminal and whose lhs is a Span
  with a label other than "X", featurizing the edge returns exactly the map \<open>{top: 1.0}\<close>;
  when the lhs is a bare Nonterminal the edge gets the empty feature map.
\<close>

theorem start_rule_features:
  assumes "\<not> is_terminal r" and "lsym \<noteq> Nonterminal ''X''"
  shows "featurize_edge sp F \<lparr>lhs = Span lsym ls le, rhs = [r]\<rparr> fsa = Inr [''top'' \<mapsto> 1]
       \<and> (n \<noteq> [] \<longrightarrow> featurize_edge sp F \<lparr>lhs = Nonterminal n, rhs = [r]\<rparr> fsa = Inr Map.empty)"
proof
  show "featurize_edge sp F \<lparr>lhs = Span lsym ls le, rhs = [r]\<rparr> fsa = Inr [''top'' \<mapsto> 1]"
    using assms by (simp add: featurize_edge_def featurize_start_rule_def)
next
  show "n \<noteq> [] \<longrightarrow> featurize_edge sp F \<lparr>lhs = Nonterminal n, rhs = [r]\<rparr> fsa = Inr Map.empty"
  proof
    assume "n \<noteq> []"
    then obtain c cs where "n = c # cs" by (cases n) auto
    then show "featurize_edge sp F \<lparr>lhs = Nonterminal n, rhs = [r]\<rparr> fsa = Inr Map.empty"
      using assms by (simp add: featurize_edge_def)
  qed
qed

theorem start_rule_features_witness:
  "featurize_edge ex_spans ex_featurizer
     \<lparr>lhs = Span (Nonterminal ''S'') 0 2, rhs = [Span (Nonterminal ''X'') 0 2]\<rparr> ex_fsa
     = Inr [''top'' \<mapsto> 1]
   \<and> featurize_edge ex_spans ex_featurizer
       \<lparr>lhs = Nonterminal ''S'', rhs = [Span (Nonterminal ''X'') 0 2]\<rparr> ex_fsa = Inr Map.empty"
  using start_rule_features [of "Span (Nonterminal ''X'') 0 2" "Nonterminal ''S''"
      ex_spans ex_featurizer 0 2 ex_fsa "''S''"]
  by simp

section \<open>Upgrade rules\<close>

text \<open>
  C4: for every upgrade rule (lhs a span labelled "X", rhs a single span) the feature map is
  exactly \<open>{type:upgrade_t: 1.0}\<close> when the rhs span is labelled "T", exactly
  \<open>{type:upgrade_d: 1.0}\<close> when it is labelled "D", and empty for any other label; so never
  both keys. This holds of the upgrade featurizer started on the empty map, and of the
  dispatch, which reaches it when the rhs label is not a terminal.
\<close>

theorem upgrade_rule_features:
  "featurize_upgrade_rule sp F \<lparr>lhs = Span (Nonterminal ''X'') ls le, rhs = [Span rsym rs re]\<rparr>
      fsa Map.empty
     = Inr (if rsym = Nonterminal ''T'' then [''type:upgrade_t'' \<mapsto> 1]
            else if rsym = Nonterminal ''D'' then [''type:upgrade_d'' \<mapsto> 1]
            else Map.empty)
   \<and> (\<not> is_terminal rsym \<longrightarrow>
        featurize_edge sp F \<lparr>lhs = Span (Nonterminal ''X'') ls le, rhs = [Span rsym rs re]\<rparr> fsa
          = Inr (if rsym = Nonterminal ''T'' then [''type:upgrade_t'' \<mapsto> 1]
                 else if rsym = Nonterminal ''D'' then [''type:upgrade_d'' \<mapsto> 1]
                 else Map.empty))"
  by (simp add: featurize_edge_def featurize_upgrade_rule_def)

theorem upgrade_rule_features_witness:
  "featurize_edge ex_spans ex_featurizer
     \<lparr>lhs = Span (Nonterminal ''X'') 0 1, rhs = [Span (Nonterminal ''T'') 0 1]\<rparr> ex_fsa
     = Inr [''type:upgrade_t'' \<mapsto> 1]
   \<and> featurize_edge ex_spans ex_featurizer
     \<lparr>lhs = Span (Nonterminal ''X'') 0 1, rhs = [Span (Nonterminal ''D'') 0 1]\<rparr> ex_fsa
     = Inr [''type:upgrade_d'' \<mapsto> 1]"
  using upgrade_rule_features [of ex_spans ex_featurizer 0 1 "Nonterminal ''T''" 0 1 ex_fsa]
    upgrade_rule_features [of ex_spans ex_featurizer 0 1 "Nonterminal ''D''" 0 1 ex_fsa]
  by simp


section \<open>Binary rules\<close>

lemma ex_binary_result:
  "featurize_edge ex_spans ex_featurizer ex_binary_rule ex_fsa = Inr
     [''type:binary'' \<mapsto> 1, ''binary:inverted'' \<mapsto> 1,
      ''inside-phrase-0'' \<mapsto> 2, ''inside-phrase-1'' \<mapsto> 4,
      ''skip-gram:cat/the'' \<mapsto> 1, ''skip-gram:word-classes:3/3'' \<mapsto> 1,
      ''source-span-len-2'' \<mapsto> 1]"
  by (simp add: featurize_edge_def ex_binary_rule_def featurize_binary_rule_def binary_x_def
      ex_spans_def ex_featurizer_def ex_embeddings_ch_def ex_fsa_def np_iadd_def set_dims_def
      skip_grams_def Let_def incr_def fmt_d_digit digit_char_def index_def upt_conv_Cons
      enumerate_eq_zip numeral_2_eq_2)

text \<open>
  C5: for every binary rule with lhs label "X" whose featurization returns a map, the map
  holds \<open>binary:inverted = 1.0\<close> and no \<open>binary:monotone\<close> when the start of the lhs span
  equals the start of the second rhs span, and \<open>binary:monotone = 1.0\<close> and no
  \<open>binary:inverted\<close> otherwise.
\<close>

theorem binary_orientation:
  assumes "featurize_edge sp F
             \<lparr>lhs = Span (Nonterminal ''X'') ls le, rhs = [Span s1 a1 b1, Span s2 a2 b2]\<rparr> fsa
           = Inr m"
  shows "(ls = a2 \<longrightarrow> m ''binary:inverted'' = Some 1 \<and> m ''binary:monotone'' = None)
       \<and> (ls \<noteq> a2 \<longrightarrow> m ''binary:monotone'' = Some 1 \<and> m ''binary:inverted'' = None)"
proof -
  let ?m0 = "incr Map.empty ''type:binary'' 1"
  let ?m1 = "if PInt ls = PInt a2 then incr ?m0 ''binary:inverted'' 1
             else incr ?m0 ''binary:monotone'' 1"
  from assms have bx:
    "binary_x sp F fsa (PInt ls) (PInt le) (PInt a1) (PInt b1) (PInt a2) (PInt b2) ?m0 = Inr m"
    by (simp add: featurize_edge_def featurize_binary_rule_def index_def)
  have inv: "m ''binary:inverted'' = ?m1 ''binary:inverted''"
    by (rule binary_x_frame [OF bx]) simp_all
  have mon: "m ''binary:monotone'' = ?m1 ''binary:monotone''"
    by (rule binary_x_frame [OF bx]) simp_all
  show ?thesis
    using inv mon by (simp add: incr_def)
qed

theorem binary_orientation_witness:
  "feature (featurize_edge ex_spans ex_featurizer ex_binary_rule ex_fsa) ''binary:inverted''
     = Inr (Some 1)
   \<and> feature (featurize_edge ex_spans ex_featurizer ex_binary_rule ex_fsa) ''binary:monotone''
     = Inr None"
  using binary_orientation [OF ex_binary_result [unfolded ex_binary_rule_def]]
  by (simp add: feature_def ex_binary_result)

lemma sum_embeddings_total:
  assumes "\<forall>w. length (get E w) = n"
  shows "length repr = n \<Longrightarrow> \<exists>r. sum_embeddings E ws repr = Inr r \<and> length r = n"
  using assms by (induction ws arbitrary: repr) (auto simp: np_iadd_def)

text \<open>
  C7: for every binary rule with lhs label "X" whose inside phrase (the words that the span
  query returns for the lhs span) is empty, featurization aborts with an assertion failure.
  Conversely, when the inside phrase is not empty, featurization of the rule returns a feature
  map; here the span query answers on integer positions and every source-side embedding
  vector has the dimension of its table, as the interfaces of the lattice and of the tables
  promise.
\<close>

theorem inside_phrase_assertion:
  "(get_phrase sp fsa (PInt ls) (PInt le) = Inr [] \<longrightarrow>
      featurize_edge sp F
        \<lparr>lhs = Span (Nonterminal ''X'') ls le, rhs = [Span s1 a1 b1, Span s2 a2 b2]\<rparr> fsa
      = Inl AssertionError)
   \<and> ((\<forall>a b. \<exists>p. get_phrase sp fsa (PInt a) (PInt b) = Inr p)
      \<and> (\<forall>w. length (get (embeddings_ch F) w) = dim (embeddings_ch F))
      \<and> get_phrase sp fsa (PInt ls) (PInt le) \<noteq> Inr [] \<longrightarrow>
        (\<exists>m. featurize_edge sp F
               \<lparr>lhs = Span (Nonterminal ''X'') ls le, rhs = [Span s1 a1 b1, Span s2 a2 b2]\<rparr> fsa
             = Inr m))"
proof (intro conjI impI)
  assume "get_phrase sp fsa (PInt ls) (PInt le) = Inr []"
  then show "featurize_edge sp F
        \<lparr>lhs = Span (Nonterminal ''X'') ls le, rhs = [Span s1 a1 b1, Span s2 a2 b2]\<rparr> fsa
      = Inl AssertionError"
    by (simp add: featurize_edge_def featurize_binary_rule_def index_def binary_x_def)
next
  let ?zeros = "replicate (dim (embeddings_ch F)) (0::real)"
  assume h: "(\<forall>a b. \<exists>p. get_phrase sp fsa (PInt a) (PInt b) = Inr p)
      \<and> (\<forall>w. length (get (embeddings_ch F) w) = dim (embeddings_ch F))
      \<and> get_phrase sp fsa (PInt ls) (PInt le) \<noteq> Inr []"
  then have tot: "\<And>a b. \<exists>p. get_phrase sp fsa (PInt a) (PInt b) = Inr p"
    and wf: "\<forall>w. length (get (embeddings_ch F) w) = dim (embeddings_ch F)"
    and ne: "get_phrase sp fsa (PInt ls) (PInt le) \<noteq> Inr []"
    by auto
  obtain p where p: "get_phrase sp fsa (PInt ls) (PInt le) = Inr p"
    using tot by blast
  with ne have pne: "p \<noteq> []" by auto
  obtain q1 where q1: "get_phrase sp fsa (PInt 0) (PInt ls) = Inr q1"
    using tot by blast
  obtain q2 where q2: "get_phrase sp fsa (PInt le) (PInt (nb_states sp fsa)) = Inr q2"
    using tot by blast
  obtain r1 where r1: "get_phrase sp fsa (PInt a1) (PInt b1) = Inr r1"
    using tot by blast
  obtain r2 where r2: "get_phrase sp fsa (PInt a2) (PInt b2) = Inr r2"
    using tot by blast
  obtain ir where ir: "sum_embeddings (embeddings_ch F) p ?zeros = Inr ir"
    using sum_embeddings_total [OF wf, of ?zeros p] by auto
  obtain or where or: "sum_embeddings (embeddings_ch F) (q1 @ q2) ?zeros = Inr or"
    using sum_embeddings_total [OF wf, of ?zeros "q1 @ q2"] by auto
  show "\<exists>m. featurize_edge sp F
               \<lparr>lhs = Span (Nonterminal ''X'') ls le, rhs = [Span s1 a1 b1, Span s2 a2 b2]\<rparr> fsa
             = Inr m"
    using p pne q1 q2 r1 r2 ir or
    by (simp add: featurize_edge_def featurize_binary_rule_def index_def binary_x_def Let_def)
qed

theorem inside_phrase_assertion_witness:
  "featurize_edge ex_spans ex_featurizer ex_empty_binary_rule ex_fsa = Inl AssertionError
   \<and> (\<exists>m. featurize_edge ex_spans ex_featurizer ex_binary_rule ex_fsa = Inr m)"
proof -
  have empty: "get_phrase ex_spans ex_fsa (PInt 1) (PInt 1) = Inr []"
    by (simp add: ex_spans_def)
  have tot: "\<forall>a b. \<exists>p. get_phrase ex_spans ex_fsa (PInt a) (PInt b) = Inr p"
    by (simp add: ex_spans_def)
  have wf: "\<forall>w. length (get (embeddings_ch ex_featurizer) w) = dim (embeddings_ch ex_featurizer)"
    by (simp add: ex_featurizer_def ex_embeddings_ch_def)
  have ne: "get_phrase ex_spans ex_fsa (PInt 0) (PInt 2) \<noteq> Inr []"
    by (simp add: ex_spans_def ex_fsa_def)
  show ?thesis
    unfolding ex_empty_binary_rule_def ex_binary_rule_def
    using inside_phrase_assertion [of ex_spans ex_fsa 1 1 ex_featurizer
        "Nonterminal ''X''" 1 1 "Nonterminal ''X''" 1 1]
      inside_phrase_assertion [of ex_spans ex_fsa 0 2 ex_featurizer
        "Nonterminal ''X''" 1 2 "Nonterminal ''X''" 0 1]
      empty tot wf ne
    by blast
qed

section \<open>Terminal rules\<close>

lemma ex_deletion_result:
  "featurize_edge ex_spans ex_featurizer ex_deletion_rule ex_fsa = Inr
     [''type:terminal'' \<mapsto> 1, ''type:deletion'' \<mapsto> 1,
      ''ibm1:del:logprob'' \<mapsto> ln (1 / 2 + eps),
      ''del:the'' \<mapsto> 1, ''del:class:3'' \<mapsto> 1,
      ''del:emb:dim-0'' \<mapsto> 1, ''del:emb:dim-1'' \<mapsto> 2]"
  by (simp add: featurize_edge_def ex_deletion_rule_def featurize_terminal_rule_def
      terminal_deletion_def ex_spans_def ex_featurizer_def ex_embeddings_ch_def ex_fsa_def
      Let_def incr_def fmt_d_digit digit_char_def index_def upt_conv_Cons)

lemma ex_insertion_result:
  "featurize_edge ex_spans ex_featurizer ex_insertion_rule ex_fsa = Inr
     [''type:terminal'' \<mapsto> 1, ''type:insertion'' \<mapsto> 1, ''target-len'' \<mapsto> 1,
      ''ibm1:ins:logprob'' \<mapsto> ln (1 / 2 + eps),
      ''ins:le'' \<mapsto> 1, ''ins:class:7'' \<mapsto> 0,
      ''ins:emb:dim-0'' \<mapsto> 1 / 2, ''ins:emb:dim-1'' \<mapsto> 1 / 4]"
  by (simp add: featurize_edge_def ex_insertion_rule_def featurize_terminal_rule_def
      terminal_insertion_def ex_spans_def ex_featurizer_def ex_embeddings_ch_def
      ex_embeddings_en_def Let_def incr_def touch_def fmt_d_digit digit_char_def index_def
      upt_conv_Cons)

lemma ex_translation_result:
  "featurize_edge ex_spans ex_featurizer ex_translation_rule ex_fsa = Inr
     [''type:terminal'' \<mapsto> 1, ''type:translation'' \<mapsto> 1, ''target-len'' \<mapsto> 1,
      ''ibm1:x2y:logprob'' \<mapsto> ln (1 / 2 + eps), ''ibm1:y2x:logprob'' \<mapsto> ln (1 / 2 + eps),
      ''ibm1:geometric:log'' \<mapsto> ln (sqrt (1 / 2 * (1 / 2) + eps) + eps),
      ''trans:the/le'' \<mapsto> 1, ''trans:class:3/7'' \<mapsto> 1,
      ''trans:emb:dim-0'' \<mapsto> 1 / 2, ''trans:emb:dim-1'' \<mapsto> 7 / 4]"
  by (simp add: featurize_edge_def ex_translation_rule_def featurize_terminal_rule_def
      terminal_translation_def ex_spans_def ex_featurizer_def ex_embeddings_en_def
      ex_embeddings_ch_def ex_fsa_def Let_def incr_def fmt_d_digit digit_char_def index_def
      upt_conv_Cons)

text \<open>
  C1 (the code at the failing input): with sparse-word and word-class features enabled, the
  insertion rule for the target word "le" of cluster 7 gets \<open>ins:class:7\<close> with the value
  0.0: the source reads \<^verbatim>\<open>fmap["ins:class:%d" % tgt_class]\<close> and never adds to it. The
  deletion rule for the source word "the" of cluster 3 gets \<open>del:class:3 = 1.0\<close>.
\<close>

theorem insertion_class_feature_zero:
  "feature (featurize_edge ex_spans ex_featurizer ex_insertion_rule ex_fsa) ''ins:class:7''
     = Inr (Some 0)
   \<and> feature (featurize_edge ex_spans ex_featurizer ex_deletion_rule ex_fsa) ''del:class:3''
     = Inr (Some 1)"
  by (simp add: feature_def ex_insertion_result ex_deletion_result)

text \<open>
  C9 (the code at the failing input): the insertion loop runs over the dimensions of the
  source-side table. With a source-side table of one dimension and a target-side table of
  two, \<open>ins:emb:dim-1\<close> is missing; with a source-side table of three dimensions the
  featurization of the rule raises IndexError.
\<close>

theorem insertion_embedding_dims:
  "feature (featurize_edge ex_spans ex_featurizer_narrow ex_insertion_rule ex_fsa)
     ''ins:emb:dim-0'' = Inr (Some (1 / 2))
   \<and> feature (featurize_edge ex_spans ex_featurizer_narrow ex_insertion_rule ex_fsa)
     ''ins:emb:dim-1'' = Inr None
   \<and> dim (embeddings_en ex_featurizer_narrow) = 2
   \<and> featurize_edge ex_spans ex_featurizer_wide ex_insertion_rule ex_fsa = Inl IndexError"
  by (simp add: feature_def featurize_edge_def ex_insertion_rule_def featurize_terminal_rule_def
      terminal_insertion_def ex_spans_def ex_featurizer_def ex_featurizer_narrow_def
      ex_featurizer_wide_def ex_embeddings_en_def Let_def incr_def touch_def fmt_d_digit
      digit_char_def index_def upt_conv_Cons)

lemma terminal_translation_frame:
  assumes "terminal_translation sp F fsa ls le rv m0 = Inr m"
    and "get_source_word sp fsa ls le = Inr src" and "get_target_word sp rv = Inr tgt"
    and "\<not> prefix ''trans:'' k"
  shows "m k = (incr (incr (incr (incr (incr m0 ''type:translation'' 1) ''target-len'' 1)
             ''ibm1:x2y:logprob'' (ln (ibm1_probs F (src, tgt) + eps)))
             ''ibm1:y2x:logprob'' (ln (ibm1_probs F (tgt, src) + eps)))
             ''ibm1:geometric:log''
               (ln (sqrt (ibm1_probs F (src, tgt) * ibm1_probs F (tgt, src) + eps) + eps))) k"
proof -
  have c: "\<not> prefix ''trans:class:'' k" and d: "\<not> prefix ''trans:emb:dim-'' k"
    using assms(4) by (auto simp: prefix_def)
  show ?thesis
    using assms c d
    by (auto simp add: terminal_translation_def Let_def incr_frame
          dest!: assign_dims_frame [where k = k] simp del: append.simps split: if_splits)
qed

text \<open>
  C6: for every translation rule (lhs a span labelled "T", rhs a single terminal span) whose
  featurization returns a map, with \<open>src\<close> the source word of the lhs span and \<open>tgt\<close> the
  target word of the rhs symbol, and \<open>P\<close> the alignment table with \<open>P(src,tgt)\<close> and
  \<open>P(tgt,src)\<close> not negative, the map holds under \<open>ibm1:geometric:log\<close> the value
  \<open>log(sqrt(P(src,tgt) * P(tgt,src) + 1e-10) + 1e-10)\<close>, and under \<open>ibm1:x2y:logprob\<close> and
  \<open>ibm1:y2x:logprob\<close> the values \<open>log(P(src,tgt) + 1e-10)\<close> and \<open>log(P(tgt,src) + 1e-10)\<close>.
\<close>

theorem translation_ibm1_features:
  assumes "featurize_edge sp F
             \<lparr>lhs = Span (Nonterminal ''T'') ls le, rhs = [Span rsym rs re]\<rparr> fsa = Inr m"
    and "is_terminal rsym"
    and "get_source_word sp fsa (PInt ls) (PInt le) = Inr src"
    and "get_target_word sp (PSym rsym) = Inr tgt"
    and "0 \<le> ibm1_probs F (src, tgt)" and "0 \<le> ibm1_probs F (tgt, src)"
  shows "m ''ibm1:geometric:log''
           = Some (ln (sqrt (ibm1_probs F (src, tgt) * ibm1_probs F (tgt, src) + 1 / 10 ^ 10)
                       + 1 / 10 ^ 10))
       \<and> m ''ibm1:x2y:logprob'' = Some (ln (ibm1_probs F (src, tgt) + 1 / 10 ^ 10))
       \<and> m ''ibm1:y2x:logprob'' = Some (ln (ibm1_probs F (tgt, src) + 1 / 10 ^ 10))"
proof -
  from assms(1,2) have tt:
    "terminal_translation sp F fsa (PInt ls) (PInt le) (PSym rsym)
       (incr Map.empty ''type:terminal'' 1) = Inr m"
    by (simp add: featurize_edge_def featurize_terminal_rule_def)
  note fr = terminal_translation_frame [OF tt assms(3,4)]
  have "m ''ibm1:geometric:log''
           = Some (ln (sqrt (ibm1_probs F (src, tgt) * ibm1_probs F (tgt, src) + eps) + eps))"
    by (subst fr) (simp_all add: incr_def)
  moreover have "m ''ibm1:x2y:logprob'' = Some (ln (ibm1_probs F (src, tgt) + eps))"
    by (subst fr) (simp_all add: incr_def)
  moreover have "m ''ibm1:y2x:logprob'' = Some (ln (ibm1_probs F (tgt, src) + eps))"
    by (subst fr) (simp_all add: incr_def)
  ultimately show ?thesis
    by (simp add: eps_def)
qed

theorem translation_ibm1_features_witness:
  "feature (featurize_edge ex_spans ex_featurizer ex_translation_rule ex_fsa)
     ''ibm1:geometric:log''
     = Inr (Some (ln (sqrt (1 / 2 * (1 / 2) + 1 / 10 ^ 10) + 1 / 10 ^ 10)))
   \<and> feature (featurize_edge ex_spans ex_featurizer ex_translation_rule ex_fsa)
     ''ibm1:x2y:logprob'' = Inr (Some (ln (1 / 2 + 1 / 10 ^ 10)))
   \<and> feature (featurize_edge ex_spans ex_featurizer ex_translation_rule ex_fsa)
     ''ibm1:y2x:logprob'' = Inr (Some (ln (1 / 2 + 1 / 10 ^ 10)))"
proof -
  have s: "get_source_word ex_spans ex_fsa (PInt 0) (PInt 1) = Inr ''the''"
    by (simp add: ex_spans_def ex_fsa_def)
  have t: "get_target_word ex_spans (PSym (Terminal ''le'')) = Inr ''le''"
    by (simp add: ex_spans_def)
  have i: "is_terminal (Terminal ''le'')"
    by simp
  have p: "ibm1_probs ex_featurizer (a, b) = 1 / 2" for a b
    by (simp add: ex_featurizer_def)
  have nn: "0 \<le> ibm1_probs ex_featurizer (a, b)" for a b
    by (simp add: p)
  show ?thesis
    using translation_ibm1_features
            [OF ex_translation_result [unfolded ex_translation_rule_def] i s t nn nn]
    unfolding feature_def ex_translation_result p
    by simp
qed


section \<open>Forests and batches\<close>

lemma batch_loop_target_independent:
  "map drop_target batch1 = map drop_target batch2 \<Longrightarrow>
     batch_loop sp F batch1 features = batch_loop sp F batch2 features"
proof (induction batch1 arbitrary: batch2 features)
  case Nil
  then show ?case by simp
next
  case (Cons t1 batch1)
  then obtain t2 rest where b2: "batch2 = t2 # rest"
    by (cases batch2) auto
  obtain Dx Dxy source target1 where t1: "t1 = (Dx, Dxy, source, target1)"
    by (cases t1) auto
  from Cons.prems b2 t1 obtain target2 where t2: "t2 = (Dx, Dxy, source, target2)"
    by (cases t2) (auto simp: drop_target_def)
  from Cons.prems b2 have "map drop_target batch1 = map drop_target rest"
    by simp
  then have "batch_loop sp F batch1 fs = batch_loop sp F rest fs" for fs
    by (rule Cons.IH)
  then show ?case
    by (simp add: b2 t1 t2 Let_def split: sum.splits)
qed

text \<open>
  C8: two batches that differ only in the target sentences of their tuples (forests, best
  derivations and source sentences equal, tuple by tuple) give the same result, the same
  Features container or the same exception.
\<close>

theorem batch_target_independent:
  assumes "map drop_target batch1 = map drop_target batch2"
  shows "featurize_parse_trees_batch sp F batch1 = featurize_parse_trees_batch sp F batch2"
  using batch_loop_target_independent [OF assms]
  by (simp add: featurize_parse_trees_batch_def)

theorem batch_target_independent_witness:
  "featurize_parse_trees_batch ex_spans ex_featurizer
     [([ex_translation_rule], Some [ex_root_rule], ''the cat'', ''le chat'')]
   = featurize_parse_trees_batch ex_spans ex_featurizer
     [([ex_translation_rule], Some [ex_root_rule], ''the cat'', ''un chien'')]"
  by (rule batch_target_independent) (simp add: drop_target_def)

lemma featurize_edges_Inr:
  assumes "\<forall>e\<in>set Dx. \<exists>m. featurize_edge sp F e fsa = Inr m"
  shows "featurize_edges sp F fsa Dx fs0 =
           Inr (\<lambda>e. if e \<in> set Dx
                     then (case featurize_edge sp F e fsa of Inr m \<Rightarrow> Some m | Inl x \<Rightarrow> None)
                     else fs0 e)"
  using assms
proof (induction Dx arbitrary: fs0)
  case Nil
  then show ?case by simp
next
  case (Cons a Dx)
  then obtain m where m: "featurize_edge sp F a fsa = Inr m"
    by auto
  have "featurize_edges sp F fsa Dx (features_add fs0 a m) =
           Inr (\<lambda>e. if e \<in> set Dx
                     then (case featurize_edge sp F e fsa of Inr m \<Rightarrow> Some m | Inl x \<Rightarrow> None)
                     else (features_add fs0 a m) e)"
    using Cons by simp
  then show ?case
    using m by (auto simp: features_add_def fun_eq_iff)
qed

lemma batch_loop_fails:
  "(Dx, Dxy, source, target) \<in> set batch \<Longrightarrow> Dxy = None \<or> Dxy = Some [] \<Longrightarrow>
     \<exists>err. batch_loop sp F batch features = Inl err"
proof (induction batch arbitrary: features)
  case Nil
  then show ?case by simp
next
  case (Cons t batch)
  obtain Dx' Dxy' s' t' where t: "t = (Dx', Dxy', s', t')"
    by (cases t) auto
  show ?case
  proof (cases "t = (Dx, Dxy, source, target)")
    case True
    with Cons.prems(2) t show ?thesis
      by (auto simp: Let_def add_last_rule_def last_rule_def last_item_def split: sum.splits)
  next
    case False
    with Cons.prems have "(Dx, Dxy, source, target) \<in> set batch"
      by simp
    then have "\<exists>err. batch_loop sp F batch fs = Inl err" for fs
      using Cons.IH Cons.prems(2) by blast
    then show ?thesis
      by (simp add: t Let_def split: sum.splits)
  qed
qed

text \<open>
  C10: given no best derivation (\<^verbatim>\<open>None\<close>), \<^verbatim>\<open>featurize_parse_trees\<close> returns, whenever
  every edge of the forest featurizes, a container whose keys are exactly the edges of the
  forest, each with its feature map. \<^verbatim>\<open>featurize_parse_trees_batch\<close> fails on every batch
  that holds a tuple whose best derivation is \<^verbatim>\<open>None\<close> or has no rule.
\<close>

theorem none_derivation:
  "((\<forall>e\<in>set Dx. \<exists>m. featurize_edge sp F e (make_fsa sp x) = Inr m) \<longrightarrow>
      (\<exists>fs. featurize_parse_trees sp F Dx None x = Inr fs \<and> dom fs = set Dx
         \<and> (\<forall>e\<in>set Dx. featurize_edge sp F e (make_fsa sp x) = Inr (the (fs e)))))
   \<and> ((Dx', Dxy, source, target) \<in> set batch \<and> (Dxy = None \<or> Dxy = Some []) \<longrightarrow>
        (\<exists>err. featurize_parse_trees_batch sp F batch = Inl err))"
proof (intro conjI impI)
  assume a: "\<forall>e\<in>set Dx. \<exists>m. featurize_edge sp F e (make_fsa sp x) = Inr m"
  let ?fs = "\<lambda>e. if e \<in> set Dx
                  then (case featurize_edge sp F e (make_fsa sp x) of
                          Inr m \<Rightarrow> Some m | Inl x \<Rightarrow> None)
                  else None"
  have res: "featurize_parse_trees sp F Dx None x = Inr ?fs"
    by (simp add: featurize_parse_trees_def featurize_edges_Inr [OF a])
  have fs_in: "\<exists>m. featurize_edge sp F e (make_fsa sp x) = Inr m \<and> ?fs e = Some m"
    if "e \<in> set Dx" for e
    using a that by auto
  have keys: "dom ?fs = set Dx"
  proof (rule set_eqI)
    fix e
    show "e \<in> dom ?fs \<longleftrightarrow> e \<in> set Dx"
      using fs_in [of e] by (cases "e \<in> set Dx") (auto simp: dom_def)
  qed
  have vals: "\<forall>e\<in>set Dx. featurize_edge sp F e (make_fsa sp x) = Inr (the (?fs e))"
    using fs_in by fastforce
  from res keys vals
  show "\<exists>fs. featurize_parse_trees sp F Dx None x = Inr fs \<and> dom fs = set Dx
         \<and> (\<forall>e\<in>set Dx. featurize_edge sp F e (make_fsa sp x) = Inr (the (fs e)))"
    by blast
next
  assume "(Dx', Dxy, source, target) \<in> set batch \<and> (Dxy = None \<or> Dxy = Some [])"
  then show "\<exists>err. featurize_parse_trees_batch sp F batch = Inl err"
    using batch_loop_fails [of Dx' Dxy source target batch sp F Map.empty]
    by (simp add: featurize_parse_trees_batch_def)
qed

lemma ex_make_fsa: "make_fsa ex_spans ''the cat'' = ex_fsa"
  by (simp add: ex_spans_def ex_fsa_def)

theorem none_derivation_witness:
  "(\<exists>fs. featurize_parse_trees ex_spans ex_featurizer [ex_translation_rule] None ''the cat''
           = Inr fs \<and> dom fs = {ex_translation_rule})
   \<and> (\<exists>err. featurize_parse_trees_batch ex_spans ex_featurizer
              [([ex_translation_rule], None, ''the cat'', ''le chat'')] = Inl err)"
proof -
  have a: "\<forall>e\<in>set [ex_translation_rule].
             \<exists>m. featurize_edge ex_spans ex_featurizer e (make_fsa ex_spans ''the cat'') = Inr m"
    by (simp add: ex_make_fsa ex_translation_result)
  have b: "([ex_translation_rule], None, ''the cat'', ''le chat'')
             \<in> set [([ex_translation_rule], None, ''the cat'', ''le chat'')]
           \<and> ((None :: rule list option) = None \<or> (None :: rule list option) = Some [])"
    by simp
  show ?thesis
    using none_derivation [of "[ex_translation_rule]" ex_spans ex_featurizer "''the cat''"
        "[ex_translation_rule]" None "''the cat''" "''le chat''"
        "[([ex_translation_rule], None, ''the cat'', ''le chat'')]"] a b
    by auto
qed


section \<open>The gate of the sparse word features\<close>

lemma assign_dims_Inl:
  "assign_dims pre val is m1 = Inl err \<Longrightarrow> assign_dims pre val is m2 = Inl err"
  by (induction "is" arbitrary: m1 m2) (auto split: sum.splits)

lemma assign_dims_Inr:
  "assign_dims pre val is m1 = Inr m1' \<Longrightarrow>
     \<exists>m2'. assign_dims pre val is m2 = Inr m2'
       \<and> (\<forall>k. m2' k = (if k \<in> (\<lambda>i. pre @ fmt_d (int i)) ` set is then m1' k else m2 k))
       \<and> (\<forall>k. k \<notin> (\<lambda>i. pre @ fmt_d (int i)) ` set is \<longrightarrow> m1' k = m1 k)"
proof (induction "is" arbitrary: m1 m2)
  case Nil
  then show ?case by simp
next
  case (Cons i "is")
  from Cons.prems obtain v where v: "val i = Inr v"
    and r: "assign_dims pre val is (m1(pre @ fmt_d (int i) \<mapsto> v)) = Inr m1'"
    by (auto split: sum.splits)
  from Cons.IH [OF r, of "m2(pre @ fmt_d (int i) \<mapsto> v)"]
  obtain m2' where m2': "assign_dims pre val is (m2(pre @ fmt_d (int i) \<mapsto> v)) = Inr m2'"
    and a: "\<And>k. m2' k = (if k \<in> (\<lambda>i. pre @ fmt_d (int i)) ` set is then m1' k
                          else (m2(pre @ fmt_d (int i) \<mapsto> v)) k)"
    and b: "\<And>k. k \<notin> (\<lambda>i. pre @ fmt_d (int i)) ` set is \<Longrightarrow>
                 m1' k = (m1(pre @ fmt_d (int i) \<mapsto> v)) k"
    by blast
  have "assign_dims pre val (i # is) m2 = Inr m2'"
    using v m2' by simp
  moreover have "m2' k = (if k \<in> (\<lambda>i. pre @ fmt_d (int i)) ` set (i # is) then m1' k else m2 k)" for k
    using a [of k] b [of k] by (cases "k \<in> (\<lambda>i. pre @ fmt_d (int i)) ` set is") auto
  moreover have "k \<notin> (\<lambda>i. pre @ fmt_d (int i)) ` set (i # is) \<Longrightarrow> m1' k = m1 k" for k
    using b [of k] by auto
  ultimately show ?case by blast
qed

lemma emb_keys_iff:
  "k \<in> set (emb_keys F) \<longleftrightarrow>
     dense_word_emb_features F \<and>
     (\<exists>i<dim (embeddings_ch F). k = ''del:emb:dim-'' @ fmt_d (int i)
        \<or> k = ''ins:emb:dim-'' @ fmt_d (int i) \<or> k = ''trans:emb:dim-'' @ fmt_d (int i))"
  by (auto simp add: emb_keys_def simp del: append.simps)

lemma dense_block_gate:
  fixes kind :: string
  assumes frame: "\<And>k. \<not> prefix kind k \<Longrightarrow> on_pre k = base k"
    and none: "\<And>k. sparse_prefix k \<Longrightarrow> base k = None"
    and kind: "kind = ''del:'' \<or> kind = ''ins:'' \<or> kind = ''trans:''"
    and on: "(if dense_word_emb_features F
              then assign_dims (kind @ ''emb:dim-'') val [0..<dim (embeddings_ch F)] on_pre
              else Inr on_pre) = Inr m_on"
  shows "\<exists>m_off. (if dense_word_emb_features F
              then assign_dims (kind @ ''emb:dim-'') val [0..<dim (embeddings_ch F)] base
              else Inr base) = Inr m_off
          \<and> (\<forall>k. m_off k = (if sparse_prefix k \<and> k \<notin> set (emb_keys F) then None else m_on k))"
proof (cases "dense_word_emb_features F")
  case False
  have "base k = (if sparse_prefix k \<and> k \<notin> set (emb_keys F) then None else on_pre k)" for k
  proof (cases "sparse_prefix k")
    case True
    then show ?thesis using False none by (simp add: emb_keys_def)
  next
    case np: False
    with kind have "\<not> prefix kind k" by (auto simp: sparse_prefix_def)
    then show ?thesis using np frame by simp
  qed
  then show ?thesis using False on by auto
next
  case True
  let ?W = "(\<lambda>i. (kind @ ''emb:dim-'') @ fmt_d (int i)) ` set [0..<dim (embeddings_ch F)]"
  from True on have r: "assign_dims (kind @ ''emb:dim-'') val [0..<dim (embeddings_ch F)] on_pre = Inr m_on"
    by simp
  from assign_dims_Inr [OF r, of base] obtain m_off
    where off: "assign_dims (kind @ ''emb:dim-'') val [0..<dim (embeddings_ch F)] base = Inr m_off"
      and a: "\<And>k. m_off k = (if k \<in> ?W then m_on k else base k)"
      and b: "\<And>k. k \<notin> ?W \<Longrightarrow> m_on k = on_pre k"
    by blast
  have W_emb: "k \<in> set (emb_keys F)" if "k \<in> ?W" for k
    using that True kind by (auto simp add: emb_keys_iff)
  have emb_W: "k \<in> ?W" if "k \<in> set (emb_keys F)" and "prefix kind k" for k
    using that kind by (auto simp add: emb_keys_iff)
  have "m_off k = (if sparse_prefix k \<and> k \<notin> set (emb_keys F) then None else m_on k)" for k
  proof (cases "k \<in> ?W")
    case True
    then show ?thesis using a [of k] W_emb [of k] by simp
  next
    case nW: False
    show ?thesis
    proof (cases "sparse_prefix k \<and> k \<notin> set (emb_keys F)")
      case True
      then show ?thesis using a [of k] nW none [of k] by simp
    next
      case False
      then have "\<not> prefix kind k"
        using emb_W [of k] nW kind by (auto simp: sparse_prefix_def)
      then show ?thesis using a [of k] b [of k] nW False frame [of k] by auto
    qed
  qed
  then show ?thesis using True off by auto
qed


lemma incr_not_sparse: "sparse_prefix k \<Longrightarrow> \<not> sparse_prefix key \<Longrightarrow> incr m key v k = m k"
  by (auto simp: incr_def)

lemma not_sparse_literals:
  "\<not> sparse_prefix ''type:terminal''" "\<not> sparse_prefix ''type:deletion''"
  "\<not> sparse_prefix ''type:insertion''" "\<not> sparse_prefix ''type:translation''"
  "\<not> sparse_prefix ''target-len''" "\<not> sparse_prefix ''ibm1:del:logprob''"
  "\<not> sparse_prefix ''ibm1:ins:logprob''" "\<not> sparse_prefix ''ibm1:x2y:logprob''"
  "\<not> sparse_prefix ''ibm1:y2x:logprob''" "\<not> sparse_prefix ''ibm1:geometric:log''"
  by (simp_all add: sparse_prefix_def)

lemma assign_dims_Inl_iff:
  "assign_dims pre val is m1 = Inl err \<longleftrightarrow> assign_dims pre val is m2 = Inl err"
  using assign_dims_Inl [of pre val "is" m1 err m2] assign_dims_Inl [of pre val "is" m2 err m1]
  by blast

lemma terminal_deletion_gate_Inl:
  "terminal_deletion sp (F\<lparr>sparse_word_features := True\<rparr>) fsa ls le m0 = Inl err
     \<longleftrightarrow> terminal_deletion sp (F\<lparr>sparse_word_features := False\<rparr>) fsa ls le m0 = Inl err"
proof (cases "get_source_word sp fsa ls le")
  case (Inl e)
  then show ?thesis by (simp add: terminal_deletion_def)
next
  case (Inr src)
  show ?thesis
    by (insert Inr, (cases "word_class_features F"; cases "dense_word_emb_features F";
        simp add: terminal_deletion_def Let_def; rule assign_dims_Inl_iff))
qed

lemma terminal_insertion_gate_Inl:
  "terminal_insertion sp (F\<lparr>sparse_word_features := True\<rparr>) rv m0 = Inl err
     \<longleftrightarrow> terminal_insertion sp (F\<lparr>sparse_word_features := False\<rparr>) rv m0 = Inl err"
proof (cases "get_target_word sp rv")
  case (Inl e)
  then show ?thesis by (simp add: terminal_insertion_def)
next
  case (Inr tgt)
  show ?thesis
    by (insert Inr, (cases "word_class_features F"; cases "dense_word_emb_features F";
        simp add: terminal_insertion_def Let_def; rule assign_dims_Inl_iff))
qed

lemma terminal_translation_gate_Inl:
  "terminal_translation sp (F\<lparr>sparse_word_features := True\<rparr>) fsa ls le rv m0 = Inl err
     \<longleftrightarrow> terminal_translation sp (F\<lparr>sparse_word_features := False\<rparr>) fsa ls le rv m0
           = Inl err"
proof (cases "get_source_word sp fsa ls le")
  case (Inl e)
  then show ?thesis by (simp add: terminal_translation_def)
next
  case src: (Inr src)
  show ?thesis
  proof (cases "get_target_word sp rv")
    case (Inl e)
    then show ?thesis using src by (simp add: terminal_translation_def)
  next
    case (Inr tgt)
    show ?thesis
      by (insert src Inr, (cases "word_class_features F"; cases "dense_word_emb_features F";
          simp add: terminal_translation_def Let_def; rule assign_dims_Inl_iff))
  qed
qed

lemma terminal_deletion_gate_Inr:
  assumes none: "\<And>k. sparse_prefix k \<Longrightarrow> m0 k = None"
    and on: "terminal_deletion sp (F\<lparr>sparse_word_features := True\<rparr>) fsa ls le m0 = Inr m_on"
  shows "\<exists>m_off. terminal_deletion sp (F\<lparr>sparse_word_features := False\<rparr>) fsa ls le m0 = Inr m_off
          \<and> (\<forall>k. m_off k = (if sparse_prefix k \<and> k \<notin> set (emb_keys F) then None else m_on k))"
proof (cases "get_source_word sp fsa ls le")
  case (Inl e)
  with on show ?thesis by (simp add: terminal_deletion_def)
next
  case (Inr src)
  let ?base = "incr (incr m0 ''type:deletion'' 1) ''ibm1:del:logprob''
                 (ln (ibm1_probs F (src, ''-EPS-'') + eps))"
  let ?lex = "incr ?base (''del:'' @ src) 1"
  let ?on_pre = "if word_class_features F
                 then incr ?lex (''del:'' @ ''class:'' @ fmt_d (get_cluster_id (embeddings_ch F) src)) 1
                 else ?lex"
  let ?val = "index (get (embeddings_ch F) src)"
  have frame: "?on_pre k = ?base k" if "\<not> prefix ''del:'' k" for k
    using that by (simp add: incr_frame del: append.simps)
  have none_base: "?base k = None" if "sparse_prefix k" for k
    using that none [of k] by (simp add: incr_not_sparse not_sparse_literals)
  have run_on: "(if dense_word_emb_features F
              then assign_dims (''del:'' @ ''emb:dim-'') ?val [0..<dim (embeddings_ch F)] ?on_pre
              else Inr ?on_pre) = Inr m_on"
    by (insert on Inr, (cases "word_class_features F"; cases "dense_word_emb_features F";
          simp add: terminal_deletion_def Let_def))
  from dense_block_gate [where kind = "''del:''", OF frame none_base _ run_on]
  obtain m_off where
    off: "(if dense_word_emb_features F
      then assign_dims (''del:'' @ ''emb:dim-'') ?val [0..<dim (embeddings_ch F)] ?base
      else Inr ?base) = Inr m_off"
    and rel: "\<forall>k. m_off k = (if sparse_prefix k \<and> k \<notin> set (emb_keys F) then None else m_on k)"
    by auto
  have "terminal_deletion sp (F\<lparr>sparse_word_features := False\<rparr>) fsa ls le m0 = Inr m_off"
    by (insert off Inr, (cases "dense_word_emb_features F";
          simp add: terminal_deletion_def Let_def))
  with rel show ?thesis by blast
qed

lemma terminal_translation_gate_Inr:
  assumes none: "\<And>k. sparse_prefix k \<Longrightarrow> m0 k = None"
    and on: "terminal_translation sp (F\<lparr>sparse_word_features := True\<rparr>) fsa ls le rv m0
             = Inr m_on"
  shows "\<exists>m_off. terminal_translation sp (F\<lparr>sparse_word_features := False\<rparr>) fsa ls le rv m0
                   = Inr m_off
          \<and> (\<forall>k. m_off k = (if sparse_prefix k \<and> k \<notin> set (emb_keys F) then None else m_on k))"
proof -
  from on obtain src tgt where src: "get_source_word sp fsa ls le = Inr src"
    and tgt: "get_target_word sp rv = Inr tgt"
    unfolding terminal_translation_def Let_def and_then_eq_Inr by blast
  let ?base = "incr (incr (incr (incr (incr m0 ''type:translation'' 1) ''target-len'' 1)
                 ''ibm1:x2y:logprob'' (ln (ibm1_probs F (src, tgt) + eps)))
                 ''ibm1:y2x:logprob'' (ln (ibm1_probs F (tgt, src) + eps)))
                 ''ibm1:geometric:log''
                   (ln (sqrt (ibm1_probs F (src, tgt) * ibm1_probs F (tgt, src) + eps) + eps))"
  let ?lex = "incr ?base (''trans:'' @ src @ ''/'' @ tgt) 1"
  let ?on_pre = "if word_class_features F
                 then incr ?lex (''trans:'' @ ''class:'' @ fmt_d (get_cluster_id (embeddings_ch F) src)
                                   @ ''/'' @ fmt_d (get_cluster_id (embeddings_en F) tgt)) 1
                 else ?lex"
  let ?val = "\<lambda>i. and_then (index (get (embeddings_ch F) src) i) (\<lambda>a.
                  and_then (index (get (embeddings_en F) tgt) i) (\<lambda>b. Inr (a - b)))"
  have frame: "?on_pre k = ?base k" if "\<not> prefix ''trans:'' k" for k
    using that by (simp add: incr_frame del: append.simps)
  have none_base: "?base k = None" if "sparse_prefix k" for k
    using that none [of k] by (simp add: incr_not_sparse not_sparse_literals)
  have run_on: "(if dense_word_emb_features F
              then assign_dims (''trans:'' @ ''emb:dim-'') ?val [0..<dim (embeddings_ch F)] ?on_pre
              else Inr ?on_pre) = Inr m_on"
    by (insert on src tgt, (cases "word_class_features F"; cases "dense_word_emb_features F";
          simp add: terminal_translation_def Let_def))
  from dense_block_gate [where kind = "''trans:''", OF frame none_base _ run_on]
  obtain m_off where
    off: "(if dense_word_emb_features F
      then assign_dims (''trans:'' @ ''emb:dim-'') ?val [0..<dim (embeddings_ch F)] ?base
      else Inr ?base) = Inr m_off"
    and rel: "\<forall>k. m_off k = (if sparse_prefix k \<and> k \<notin> set (emb_keys F) then None else m_on k)"
    by auto
  have "terminal_translation sp (F\<lparr>sparse_word_features := False\<rparr>) fsa ls le rv m0 = Inr m_off"
    by (insert off src tgt, (cases "dense_word_emb_features F";
          simp add: terminal_translation_def Let_def))
  with rel show ?thesis by blast
qed

lemma terminal_insertion_gate_Inr:
  assumes none: "\<And>k. sparse_prefix k \<Longrightarrow> m0 k = None"
    and on: "terminal_insertion sp (F\<lparr>sparse_word_features := True\<rparr>) rv m0 = Inr m_on"
  shows "\<exists>m_off. terminal_insertion sp (F\<lparr>sparse_word_features := False\<rparr>) rv m0 = Inr m_off
          \<and> (\<forall>k. m_off k = (if sparse_prefix k \<and> k \<notin> set (emb_keys F) then None else m_on k))"
proof (cases "get_target_word sp rv")
  case (Inl e)
  with on show ?thesis by (simp add: terminal_insertion_def)
next
  case (Inr tgt)
  let ?base = "incr (incr (incr m0 ''type:insertion'' 1) ''target-len'' 1) ''ibm1:ins:logprob''
                 (ln (ibm1_probs F (''-EPS-'', tgt) + eps))"
  let ?lex = "incr ?base (''ins:'' @ tgt) 1"
  let ?on_pre = "if word_class_features F
                 then touch ?lex (''ins:'' @ ''class:'' @ fmt_d (get_cluster_id (embeddings_en F) tgt))
                 else ?lex"
  let ?val = "index (get (embeddings_en F) tgt)"
  have frame: "?on_pre k = ?base k" if "\<not> prefix ''ins:'' k" for k
    using that by (simp add: incr_frame touch_frame del: append.simps)
  have none_base: "?base k = None" if "sparse_prefix k" for k
    using that none [of k] by (simp add: incr_not_sparse not_sparse_literals)
  have run_on: "(if dense_word_emb_features F
              then assign_dims (''ins:'' @ ''emb:dim-'') ?val [0..<dim (embeddings_ch F)] ?on_pre
              else Inr ?on_pre) = Inr m_on"
    by (insert on Inr, (cases "word_class_features F"; cases "dense_word_emb_features F";
          simp add: terminal_insertion_def Let_def))
  from dense_block_gate [where kind = "''ins:''", OF frame none_base _ run_on]
  obtain m_off where
    off: "(if dense_word_emb_features F
      then assign_dims (''ins:'' @ ''emb:dim-'') ?val [0..<dim (embeddings_ch F)] ?base
      else Inr ?base) = Inr m_off"
    and rel: "\<forall>k. m_off k = (if sparse_prefix k \<and> k \<notin> set (emb_keys F) then None else m_on k)"
    by auto
  have "terminal_insertion sp (F\<lparr>sparse_word_features := False\<rparr>) rv m0 = Inr m_off"
    by (insert off Inr, (cases "dense_word_emb_features F";
          simp add: terminal_insertion_def Let_def))
  with rel show ?thesis by blast
qed

lemma sparse_gate_Inl: "sparse_gate F (Inl err) (Inl err)"
  by (simp add: sparse_gate_def)

lemma sparse_gate_same:
  "(\<And>k. sparse_prefix k \<Longrightarrow> m k = None) \<Longrightarrow> sparse_gate F (Inr m) (Inr m)"
  by (simp add: sparse_gate_def)

lemma sparse_gateI:
  assumes "\<And>err. on = Inl err \<Longrightarrow> off = Inl err"
    and "\<And>m_on. on = Inr m_on \<Longrightarrow>
           \<exists>m_off. off = Inr m_off
             \<and> (\<forall>k. m_off k = (if sparse_prefix k \<and> k \<notin> set (emb_keys F) then None else m_on k))"
  shows "sparse_gate F on off"
  using assms by (cases on) (simp_all add: sparse_gate_def)

lemma terminal_deletion_gate:
  assumes "\<And>k. sparse_prefix k \<Longrightarrow> m0 k = None"
  shows "sparse_gate F (terminal_deletion sp (F\<lparr>sparse_word_features := True\<rparr>) fsa ls le m0)
           (terminal_deletion sp (F\<lparr>sparse_word_features := False\<rparr>) fsa ls le m0)"
  by (rule sparse_gateI) (simp_all add: terminal_deletion_gate_Inl terminal_deletion_gate_Inr assms)

lemma terminal_insertion_gate:
  assumes "\<And>k. sparse_prefix k \<Longrightarrow> m0 k = None"
  shows "sparse_gate F (terminal_insertion sp (F\<lparr>sparse_word_features := True\<rparr>) rv m0)
           (terminal_insertion sp (F\<lparr>sparse_word_features := False\<rparr>) rv m0)"
  by (rule sparse_gateI) (simp_all add: terminal_insertion_gate_Inl terminal_insertion_gate_Inr assms)

lemma terminal_translation_gate:
  assumes "\<And>k. sparse_prefix k \<Longrightarrow> m0 k = None"
  shows "sparse_gate F (terminal_translation sp (F\<lparr>sparse_word_features := True\<rparr>) fsa ls le rv m0)
           (terminal_translation sp (F\<lparr>sparse_word_features := False\<rparr>) fsa ls le rv m0)"
  by (rule sparse_gateI) (simp_all add: terminal_translation_gate_Inl terminal_translation_gate_Inr assms)

lemma type_terminal_not_sparse: "sparse_prefix k \<Longrightarrow> [''type:terminal'' \<mapsto> (1::real)] k = None"
  by (auto simp: sparse_prefix_def)

lemma featurize_terminal_rule_gate:
  "sparse_gate F (featurize_terminal_rule sp (F\<lparr>sparse_word_features := True\<rparr>) r fsa Map.empty)
     (featurize_terminal_rule sp (F\<lparr>sparse_word_features := False\<rparr>) r fsa Map.empty)"
proof (cases "unpack3 (obj (lhs r))")
  case (Inl e)
  then show ?thesis by (simp add: featurize_terminal_rule_def sparse_gate_Inl)
next
  case l: (Inr lt)
  obtain lsym ls le where lt: "lt = (lsym, ls, le)" by (cases lt) auto
  show ?thesis
  proof (cases "index (rhs r) 0")
    case (Inl e)
    then show ?thesis using l by (simp add: featurize_terminal_rule_def sparse_gate_Inl lt)
  next
    case r0: (Inr rhs0)
    show ?thesis
    proof (cases "unpack3 (obj rhs0)")
      case (Inl e)
      then show ?thesis using l r0 by (simp add: featurize_terminal_rule_def sparse_gate_Inl lt)
    next
      case (Inr rt)
      obtain rsym rs re where rt: "rt = (rsym, rs, re)" by (cases rt) auto
      note gates =
        terminal_deletion_gate [where ?m0.0 = "[''type:terminal'' \<mapsto> 1]",
          OF type_terminal_not_sparse]
        terminal_insertion_gate [where ?m0.0 = "[''type:terminal'' \<mapsto> 1]",
          OF type_terminal_not_sparse]
        terminal_translation_gate [where ?m0.0 = "[''type:terminal'' \<mapsto> 1]",
          OF type_terminal_not_sparse]
        sparse_gate_same [where m = "[''type:terminal'' \<mapsto> 1]",
          OF type_terminal_not_sparse]
      show ?thesis
        using l r0 Inr
        by (simp add: featurize_terminal_rule_def Let_def lt rt gates)
    qed
  qed
qed

lemma binary_x_sparse_flag:
  "binary_x sp (F\<lparr>sparse_word_features := b\<rparr>) fsa ls le a1 b1 a2 b2 m0
     = binary_x sp F fsa ls le a1 b1 a2 b2 m0"
  by (simp add: binary_x_def Let_def cong: if_cong)

lemma featurize_binary_rule_sparse_flag:
  "featurize_binary_rule sp (F\<lparr>sparse_word_features := b\<rparr>) r fsa m0
     = featurize_binary_rule sp F r fsa m0"
  by (simp add: featurize_binary_rule_def binary_x_sparse_flag Let_def cong: if_cong)

lemma sparse_prefix_not_binary:
  assumes "sparse_prefix k"
  shows "\<not> prefix ''inside-phrase-'' k" "\<not> prefix ''outside-phrase-'' k"
    "\<not> prefix ''skip-gram:'' k" "\<not> prefix ''source-span-len-'' k"
    "k \<noteq> ''type:binary''" "k \<noteq> ''binary:inverted''" "k \<noteq> ''binary:monotone''"
    "k \<noteq> ''binary:recursive_deletion''" "k \<noteq> ''top''" "k \<noteq> ''type:upgrade_t''"
    "k \<noteq> ''type:upgrade_d''"
  using assms by (auto simp: sparse_prefix_def prefix_def)

lemma featurize_binary_rule_no_sparse_keys:
  assumes "featurize_binary_rule sp F r fsa Map.empty = Inr m" and "sparse_prefix k"
  shows "m k = None"
proof -
  note ns = sparse_prefix_not_binary [OF assms(2)]
  from assms(1) obtain lsym ls le a1 b1 a2 b2 where
    m: "(if lsym = PSym (Nonterminal ''D'') then
          Inr (incr [''type:binary'' \<mapsto> 1] ''binary:recursive_deletion'' 1)
        else if lsym = PSym (Nonterminal ''X'') then
          binary_x sp F fsa ls le a1 b1 a2 b2 [''type:binary'' \<mapsto> 1]
        else Inr [''type:binary'' \<mapsto> 1]) = Inr m"
    by (auto simp: featurize_binary_rule_def Let_def and_then_eq_Inr)
  show ?thesis
  proof (cases "lsym = PSym (Nonterminal ''X'') \<and> lsym \<noteq> PSym (Nonterminal ''D'')")
    case True
    with m have "binary_x sp F fsa ls le a1 b1 a2 b2 [''type:binary'' \<mapsto> 1] = Inr m"
      by simp
    from binary_x_frame [OF this ns(1-4)] show ?thesis
      using ns by (simp add: incr_def)
  next
    case False
    with m show ?thesis
      using ns by (auto simp: incr_def split: if_splits)
  qed
qed

lemma sparse_gate_refl:
  assumes "\<And>m k. x = Inr m \<Longrightarrow> sparse_prefix k \<Longrightarrow> m k = None"
  shows "sparse_gate F x x"
  using assms by (cases x) (simp_all add: sparse_gate_def)

lemma featurize_upgrade_rule_sparse_flag:
  "featurize_upgrade_rule sp (F\<lparr>sparse_word_features := b\<rparr>) r fsa m0
     = featurize_upgrade_rule sp F r fsa m0"
  by (simp add: featurize_upgrade_rule_def)

lemma featurize_upgrade_rule_no_sparse_keys:
  assumes "featurize_upgrade_rule sp F r fsa Map.empty = Inr m" and "sparse_prefix k"
  shows "m k = None"
  using assms(1) sparse_prefix_not_binary [OF assms(2)]
  by (auto simp: featurize_upgrade_rule_def and_then_eq_Inr split: if_splits)

lemma featurize_edge_gate:
  "sparse_gate F (featurize_edge sp (F\<lparr>sparse_word_features := True\<rparr>) e fsa)
     (featurize_edge sp (F\<lparr>sparse_word_features := False\<rparr>) e fsa)"
proof (cases "length (rhs e) = 2")
  case True
  then show ?thesis
    by (simp add: featurize_edge_def featurize_binary_rule_sparse_flag)
       (rule sparse_gate_refl, rule featurize_binary_rule_no_sparse_keys)
next
  case not_binary: False
  show ?thesis
  proof (cases "index (rhs e) 0")
    case (Inl err)
    then show ?thesis
      using not_binary by (simp add: featurize_edge_def sparse_gate_Inl)
  next
    case r0: (Inr rhs0)
    show ?thesis
    proof (cases "is_terminal rhs0")
      case True
      then show ?thesis
        using not_binary r0 by (simp add: featurize_edge_def featurize_terminal_rule_gate)
    next
      case not_terminal: False
      show ?thesis
      proof (cases "index (obj (lhs e)) 0")
        case (Inl err)
        then show ?thesis
          using not_binary r0 not_terminal by (simp add: featurize_edge_def sparse_gate_Inl)
      next
        case (Inr lhs0)
        show ?thesis
        proof (cases "lhs0 \<noteq> PSym (Nonterminal ''X'')")
          case True
          have "sparse_gate F (Inr [''top'' \<mapsto> 1]) (Inr [''top'' \<mapsto> 1])"
            by (rule sparse_gate_same) (auto dest: sparse_prefix_not_binary(9))
          moreover have "sparse_gate F (Inr Map.empty) (Inr Map.empty)"
            by (rule sparse_gate_same) simp
          ultimately show ?thesis
            using not_binary r0 not_terminal Inr True
            by (cases "isinstance_Nonterminal (lhs e)")
               (simp_all add: featurize_edge_def featurize_start_rule_def Let_def)
        next
          case False
          have "sparse_gate F (featurize_upgrade_rule sp F e fsa Map.empty)
                  (featurize_upgrade_rule sp F e fsa Map.empty)"
            by (rule sparse_gate_refl, rule featurize_upgrade_rule_no_sparse_keys)
          then show ?thesis
            using not_binary r0 not_terminal Inr False
            by (simp add: featurize_edge_def featurize_upgrade_rule_sparse_flag)
        qed
      qed
    qed
  qed
qed

text \<open>
  C2 (as stated, refuted): with the word-class features enabled, the deletion rule for "the"
  holds \<open>del:class:3 = 1.0\<close> when the sparse word features are enabled and no such key when
  they are disabled, so the \<open>:class:\<close> keys are not gated independently.
\<close>

theorem sparse_word_features_class_counterexample:
  "feature (featurize_edge ex_spans (ex_featurizer\<lparr>sparse_word_features := True\<rparr>)
              ex_deletion_rule ex_fsa) ''del:class:3'' = Inr (Some 1)
   \<and> feature (featurize_edge ex_spans (ex_featurizer\<lparr>sparse_word_features := False\<rparr>)
              ex_deletion_rule ex_fsa) ''del:class:3'' = Inr None
   \<and> word_class_features (ex_featurizer\<lparr>sparse_word_features := False\<rparr>)"
  by (simp add: feature_def featurize_edge_def ex_deletion_rule_def featurize_terminal_rule_def
      terminal_deletion_def ex_spans_def ex_featurizer_def ex_embeddings_ch_def ex_fsa_def
      Let_def incr_def fmt_d_digit digit_char_def index_def upt_conv_Cons)

text \<open>
  C2 (amended): for every rule, featurizing with the sparse word features disabled fails
  exactly when featurizing with them enabled fails, and otherwise returns the enabled
  feature map without its keys under the prefixes \<open>del:\<close>, \<open>ins:\<close> and \<open>trans:\<close>, the
  \<open>:class:\<close> keys among them, since the class features are gated on both options; the
  embedding-dimension keys written by the dense blocks and every other key keep their
  values.
\<close>

theorem sparse_word_features_gate:
  "(featurize_edge sp (F\<lparr>sparse_word_features := True\<rparr>) e fsa = Inl err
      \<longleftrightarrow> featurize_edge sp (F\<lparr>sparse_word_features := False\<rparr>) e fsa = Inl err)
   \<and> (featurize_edge sp (F\<lparr>sparse_word_features := True\<rparr>) e fsa = Inr m_on \<longrightarrow>
        (\<exists>m_off. featurize_edge sp (F\<lparr>sparse_word_features := False\<rparr>) e fsa = Inr m_off
           \<and> (\<forall>k. m_off k = (if sparse_prefix k \<and> k \<notin> set (emb_keys F) then None
                              else m_on k))))"
  using featurize_edge_gate [of F sp e fsa]
  by (cases "featurize_edge sp (F\<lparr>sparse_word_features := True\<rparr>) e fsa")
     (auto simp: sparse_gate_def)

lemma ex_deletion_result_on:
  "featurize_edge ex_spans (ex_featurizer\<lparr>sparse_word_features := True\<rparr>) ex_deletion_rule ex_fsa
     = Inr [''type:terminal'' \<mapsto> 1, ''type:deletion'' \<mapsto> 1,
      ''ibm1:del:logprob'' \<mapsto> ln (1 / 2 + eps),
      ''del:the'' \<mapsto> 1, ''del:class:3'' \<mapsto> 1,
      ''del:emb:dim-0'' \<mapsto> 1, ''del:emb:dim-1'' \<mapsto> 2]"
  using ex_deletion_result by (simp add: ex_featurizer_def)

theorem sparse_word_features_gate_witness:
  "feature (featurize_edge ex_spans (ex_featurizer\<lparr>sparse_word_features := False\<rparr>)
              ex_deletion_rule ex_fsa) ''del:the'' = Inr None
   \<and> feature (featurize_edge ex_spans (ex_featurizer\<lparr>sparse_word_features := False\<rparr>)
              ex_deletion_rule ex_fsa) ''del:emb:dim-1'' = Inr (Some 2)
   \<and> feature (featurize_edge ex_spans (ex_featurizer\<lparr>sparse_word_features := False\<rparr>)
              ex_deletion_rule ex_fsa) ''type:deletion'' = Inr (Some 1)"
proof -
  from sparse_word_features_gate [of ex_spans ex_featurizer ex_deletion_rule ex_fsa _
      "[''type:terminal'' \<mapsto> 1, ''type:deletion'' \<mapsto> 1,
      ''ibm1:del:logprob'' \<mapsto> ln (1 / 2 + eps),
      ''del:the'' \<mapsto> 1, ''del:class:3'' \<mapsto> 1,
      ''del:emb:dim-0'' \<mapsto> 1, ''del:emb:dim-1'' \<mapsto> 2]"] ex_deletion_result_on
  obtain m_off where off: "featurize_edge ex_spans (ex_featurizer\<lparr>sparse_word_features := False\<rparr>)
              ex_deletion_rule ex_fsa = Inr m_off"
    and rel: "\<And>k. m_off k = (if sparse_prefix k \<and> k \<notin> set (emb_keys ex_featurizer) then None
                              else [''type:terminal'' \<mapsto> 1, ''type:deletion'' \<mapsto> 1,
      ''ibm1:del:logprob'' \<mapsto> ln (1 / 2 + eps),
      ''del:the'' \<mapsto> 1, ''del:class:3'' \<mapsto> 1,
      ''del:emb:dim-0'' \<mapsto> 1, ''del:emb:dim-1'' \<mapsto> 2] k)"
    by blast
  have keys: "set (emb_keys ex_featurizer) = {''del:emb:dim-0'', ''ins:emb:dim-0'', ''trans:emb:dim-0'',
      ''del:emb:dim-1'', ''ins:emb:dim-1'', ''trans:emb:dim-1''}"
    by (simp add: emb_keys_def ex_featurizer_def ex_embeddings_ch_def upt_conv_Cons
        fmt_d_digit digit_char_def)
  show ?thesis
    unfolding feature_def off
    by (simp add: rel keys sparse_prefix_def)
qed

end
